theory Spec2Isabelle
  imports Complex_Main
begin

section \<open>Python values and exceptions\<close>

text \<open>
  The script is Python on top of torch. An exception is a value of \<open>error\<close>; a
  computation that can raise returns \<open>error + 'a\<close>, \<open>Inl\<close> being the raise. The string
  is the message, kept to tell apart the places that raise the same class.
\<close>

datatype error =
    TypeError string
  | ValueError string
  | RuntimeError string
  | IndexError string
  | AttributeError string
  | NameError string

text \<open>
  Numbers as the constructor of the network computes them: Python keeps \<open>int\<close> and
  \<open>float\<close> apart, and \<open>2 ** e\<close> of two ints is an int for \<open>e \<ge> 0\<close> and a float for
  \<open>e < 0\<close>. The float carries its mathematical value (a power of two times an int
  here); rounding is not modelled.
\<close>

datatype pynum = PyInt int | PyFloat real

definition py_pow2 :: "int \<Rightarrow> pynum" where
  "py_pow2 e = (if 0 \<le> e then PyInt (2 ^ nat e) else PyFloat (1 / 2 ^ nat (- e)))"

fun py_mul :: "pynum \<Rightarrow> pynum \<Rightarrow> pynum" where
  "py_mul (PyInt a) (PyInt b) = PyInt (a * b)"
| "py_mul (PyInt a) (PyFloat b) = PyFloat (real_of_int a * b)"
| "py_mul (PyFloat a) (PyInt b) = PyFloat (a * real_of_int b)"
| "py_mul (PyFloat a) (PyFloat b) = PyFloat (a * b)"

text \<open>\<open>xs[i]\<close> on a Python sequence: a negative index counts from the end.\<close>

definition py_index :: "'a list \<Rightarrow> int \<Rightarrow> error + 'a" where
  "py_index xs i =
     (if 0 \<le> i then
        (if i < int (length xs) then Inr (xs ! nat i)
         else Inl (IndexError ''index out of range''))
      else if - int (length xs) \<le> i then Inr (xs ! nat (int (length xs) + i))
      else Inl (IndexError ''index out of range''))"

text \<open>\<open>range(n)\<close> is \<open>[0..n - 1]\<close>; \<open>range(n - 1, -1, -1)\<close> counts down from \<open>n - 1\<close> to \<open>0\<close>.\<close>

definition py_range :: "int \<Rightarrow> int list" where
  "py_range n = [0..n - 1]"

function range_down :: "int \<Rightarrow> int list" where
  "range_down i = (if 0 \<le> i then i # range_down (i - 1) else [])"
  by pat_completeness auto
termination
  by (relation "measure (\<lambda>i. nat (i + 1))") auto

declare range_down.simps [simp del]

section \<open>The layers of torch.nn that the network uses\<close>

text \<open>
  The layers are torch's, not the repository's: they are modelled after the library's
  documented behaviour. A layer is kept by its hyperparameters: \<open>Conv2d in out kernel padding\<close>,
  \<open>ConvTranspose2d in out kernel stride\<close>, \<open>MaxPool2d kernel\<close>.

  A convolution's constructor first takes \<open>in_channels % groups\<close> and
  \<open>out_channels % groups\<close> (groups is 1) and raises ValueError when one is not zero;
  then it allocates the weight with \<open>torch.empty\<close>, which raises TypeError for a size
  that is not an int and RuntimeError for a negative one.
\<close>

datatype layer =
    Conv2d nat nat nat nat
  | ConvTranspose2d nat nat nat nat
  | LeakyReLU
  | MaxPool2d nat

fun divisible_by_groups :: "pynum \<Rightarrow> bool" where
  "divisible_by_groups (PyInt n) = True"
| "divisible_by_groups (PyFloat r) = (r = of_int \<lfloor>r\<rfloor>)"

fun weight_sizes :: "pynum \<Rightarrow> pynum \<Rightarrow> error + nat \<times> nat" where
  "weight_sizes (PyInt a) (PyInt b) =
     (if a < 0 then Inl (RuntimeError ''trying to create tensor with negative dimension'')
      else if b < 0 then Inl (RuntimeError ''trying to create tensor with negative dimension'')
      else Inr (nat a, nat b))"
| "weight_sizes _ _ = Inl (TypeError ''empty() received an invalid combination of arguments'')"

definition conv_channels :: "pynum \<Rightarrow> pynum \<Rightarrow> error + nat \<times> nat" where
  "conv_channels in_ch out_ch =
     (if divisible_by_groups in_ch then
        if divisible_by_groups out_ch then weight_sizes in_ch out_ch
        else Inl (ValueError ''out_channels must be divisible by groups'')
      else Inl (ValueError ''in_channels must be divisible by groups''))"

definition new_Conv2d :: "pynum \<Rightarrow> pynum \<Rightarrow> nat \<Rightarrow> nat \<Rightarrow> error + layer" where
  "new_Conv2d in_ch out_ch k p =
     (case conv_channels in_ch out_ch of
        Inl e \<Rightarrow> Inl e
      | Inr (a, b) \<Rightarrow> Inr (Conv2d a b k p))"

definition new_ConvTranspose2d :: "pynum \<Rightarrow> pynum \<Rightarrow> nat \<Rightarrow> nat \<Rightarrow> error + layer" where
  "new_ConvTranspose2d in_ch out_ch k s =
     (case conv_channels in_ch out_ch of
        Inl e \<Rightarrow> Inl e
      | Inr (a, b) \<Rightarrow> Inr (ConvTranspose2d a b k s))"

section \<open>UNet.__init__\<close>

record unet =
  down_layers :: "layer list list"
  bottleneck :: "layer list"
  up_layers :: "layer list list"
  output_layer :: layer

text \<open>
  The arguments of \<open>nn.Sequential(...)\<close> are evaluated left to right, so the first
  constructor that raises ends the block.
\<close>

definition down_block :: "pynum \<Rightarrow> pynum \<Rightarrow> error + layer list" where
  "down_block in_ch out_ch =
     (case new_Conv2d in_ch out_ch 3 1 of
        Inl e \<Rightarrow> Inl e
      | Inr c1 \<Rightarrow>
          (case new_Conv2d out_ch out_ch 3 1 of
             Inl e \<Rightarrow> Inl e
           | Inr c2 \<Rightarrow> Inr [c1, LeakyReLU, c2, LeakyReLU, MaxPool2d 2]))"

definition bottleneck_block :: "pynum \<Rightarrow> pynum \<Rightarrow> error + layer list" where
  "bottleneck_block in_ch out_ch =
     (case new_Conv2d in_ch out_ch 3 1 of
        Inl e \<Rightarrow> Inl e
      | Inr c1 \<Rightarrow>
          (case new_Conv2d out_ch out_ch 3 1 of
             Inl e \<Rightarrow> Inl e
           | Inr c2 \<Rightarrow> Inr [c1, LeakyReLU, c2, LeakyReLU]))"

definition up_block :: "pynum \<Rightarrow> pynum \<Rightarrow> error + layer list" where
  "up_block in_ch out_ch =
     (case new_ConvTranspose2d in_ch out_ch 2 2 of
        Inl e \<Rightarrow> Inl e
      | Inr t \<Rightarrow>
          (case new_Conv2d out_ch out_ch 3 1 of
             Inl e \<Rightarrow> Inl e
           | Inr c1 \<Rightarrow>
               (case new_Conv2d out_ch out_ch 3 1 of
                  Inl e \<Rightarrow> Inl e
                | Inr c2 \<Rightarrow> Inr [t, LeakyReLU, c1, LeakyReLU, c2, LeakyReLU])))"

text \<open>The channel counts of stage \<open>i\<close>, as the two loops compute them.\<close>

definition down_in_ch :: "pynum \<Rightarrow> pynum \<Rightarrow> int \<Rightarrow> pynum" where
  "down_in_ch in_channels out_channels i =
     (if i = 0 then in_channels else py_mul (py_pow2 (i - 1)) out_channels)"

definition down_out_ch :: "pynum \<Rightarrow> int \<Rightarrow> pynum" where
  "down_out_ch out_channels i = py_mul (py_pow2 i) out_channels"

definition up_in_ch :: "pynum \<Rightarrow> int \<Rightarrow> int \<Rightarrow> pynum" where
  "up_in_ch out_channels num_layers i =
     (if i = num_layers - 1 then py_mul out_channels (PyInt 2)
      else py_mul (py_pow2 i) out_channels)"

definition up_out_ch :: "pynum \<Rightarrow> int \<Rightarrow> pynum" where
  "up_out_ch out_channels i = py_mul (py_pow2 (i - 1)) out_channels"

fun down_loop :: "pynum \<Rightarrow> pynum \<Rightarrow> int list \<Rightarrow> error + layer list list" where
  "down_loop in_channels out_channels [] = Inr []"
| "down_loop in_channels out_channels (i # rest) =
     (case down_block (down_in_ch in_channels out_channels i) (down_out_ch out_channels i) of
        Inl e \<Rightarrow> Inl e
      | Inr b \<Rightarrow>
          (case down_loop in_channels out_channels rest of
             Inl e \<Rightarrow> Inl e
           | Inr bs \<Rightarrow> Inr (b # bs)))"

fun up_loop :: "pynum \<Rightarrow> int \<Rightarrow> int list \<Rightarrow> error + layer list list" where
  "up_loop out_channels num_layers [] = Inr []"
| "up_loop out_channels num_layers (i # rest) =
     (case up_block (up_in_ch out_channels num_layers i) (up_out_ch out_channels i) of
        Inl e \<Rightarrow> Inl e
      | Inr b \<Rightarrow>
          (case up_loop out_channels num_layers rest of
             Inl e \<Rightarrow> Inl e
           | Inr bs \<Rightarrow> Inr (b # bs)))"

definition UNet_init :: "pynum \<Rightarrow> pynum \<Rightarrow> int \<Rightarrow> error + unet" where
  "UNet_init in_channels out_channels num_layers =
     (case down_loop in_channels out_channels (py_range num_layers) of
        Inl e \<Rightarrow> Inl e
      | Inr down \<Rightarrow>
          (case bottleneck_block (py_mul (py_pow2 (num_layers - 1)) out_channels) out_channels of
             Inl e \<Rightarrow> Inl e
           | Inr mid \<Rightarrow>
               (case up_loop out_channels num_layers (rev (py_range num_layers)) of
                  Inl e \<Rightarrow> Inl e
                | Inr up \<Rightarrow>
                    (case new_Conv2d out_channels out_channels 3 1 of
                       Inl e \<Rightarrow> Inl e
                     | Inr out \<Rightarrow>
                         Inr \<lparr>down_layers = down, bottleneck = mid,
                              up_layers = up, output_layer = out\<rparr>))))"

text \<open>
  \<open>UNet(*args)\<close>: the call binds the positional arguments to
  \<open>(in_channels, out_channels, num_layers=5)\<close>. Only \<open>num_layers\<close> has a default.
  \<open>range(num_layers)\<close> is the first use of \<open>num_layers\<close> and refuses a float.
\<close>

fun UNet_new :: "pynum list \<Rightarrow> error + unet" where
  "UNet_new [] = Inl (TypeError ''__init__() missing 2 required positional arguments'')"
| "UNet_new [a] = Inl (TypeError ''__init__() missing 1 required positional argument'')"
| "UNet_new [a, b] = UNet_init a b 5"
| "UNet_new [a, b, PyInt n] = UNet_init a b n"
| "UNet_new [a, b, PyFloat r] =
     Inl (TypeError ''float object cannot be interpreted as an integer'')"
| "UNet_new (a # b # c # d # rest) =
     Inl (TypeError ''__init__() takes from 3 to 4 positional arguments'')"

text \<open>
  The three kinds of block that \<open>__init__\<close> builds, whatever their channel counts are.
\<close>

definition is_down_block :: "layer list \<Rightarrow> bool" where
  "is_down_block l =
     (\<exists>a b c d. l = [Conv2d a b 3 1, LeakyReLU, Conv2d c d 3 1, LeakyReLU, MaxPool2d 2])"

definition is_bottleneck_block :: "layer list \<Rightarrow> bool" where
  "is_bottleneck_block l =
     (\<exists>a b c d. l = [Conv2d a b 3 1, LeakyReLU, Conv2d c d 3 1, LeakyReLU])"

definition is_up_block :: "layer list \<Rightarrow> bool" where
  "is_up_block l =
     (\<exists>a b c d e f. l = [ConvTranspose2d a b 2 2, LeakyReLU, Conv2d c d 3 1, LeakyReLU,
                         Conv2d e f 3 1, LeakyReLU])"

section \<open>UNet.forward, on shapes\<close>

text \<open>
  \<open>forward\<close> is followed on the shape \<open>(B, C, H, W)\<close> of the tensor it carries, which
  is what decides whether every layer and the concatenation accept their input, and
  what the output's height and width are. The shape rules are those of torch's layers
  (stride 1 and dilation 1 for Conv2d, stride = kernel for MaxPool2d, no padding for
  ConvTranspose2d), which are not part of the repository.
\<close>

type_synonym shape4 = "nat \<times> nat \<times> nat \<times> nat"

fun layer_shape :: "layer \<Rightarrow> shape4 \<Rightarrow> error + shape4" where
  "layer_shape (Conv2d cin cout k p) (b, c, h, w) =
     (if c = cin then
        if k \<le> h + 2 * p \<and> k \<le> w + 2 * p
        then Inr (b, cout, h + 2 * p - k + 1, w + 2 * p - k + 1)
        else Inl (RuntimeError ''kernel size cannot be greater than actual input size'')
      else Inl (RuntimeError ''input channels do not match the weight''))"
| "layer_shape (ConvTranspose2d cin cout k s) (b, c, h, w) =
     (if c = cin then
        if 0 < h \<and> 0 < w
        then Inr (b, cout, (h - 1) * s + k, (w - 1) * s + k)
        else Inl (RuntimeError ''non-zero size expected for the spatial dimensions'')
      else Inl (RuntimeError ''input channels do not match the weight''))"
| "layer_shape LeakyReLU x = Inr x"
| "layer_shape (MaxPool2d k) (b, c, h, w) =
     (if 0 < k \<and> k \<le> h \<and> k \<le> w
      then Inr (b, c, (h - k) div k + 1, (w - k) div k + 1)
      else Inl (RuntimeError ''output size is too small''))"

fun sequential :: "layer list \<Rightarrow> shape4 \<Rightarrow> error + shape4" where
  "sequential [] x = Inr x"
| "sequential (l # ls) x =
     (case layer_shape l x of Inl e \<Rightarrow> Inl e | Inr x' \<Rightarrow> sequential ls x')"

text \<open>\<open>torch.cat([x, skip], dim=1)\<close>: every dimension but the channels must agree.\<close>

fun cat_dim1 :: "shape4 \<Rightarrow> shape4 \<Rightarrow> error + shape4" where
  "cat_dim1 (b, c, h, w) (b', c', h', w') =
     (if b = b' \<and> h = h' \<and> w = w' then Inr (b, c + c', h, w)
      else Inl (RuntimeError ''sizes of tensors must match except in dimension 1''))"

fun down_pass :: "layer list list \<Rightarrow> shape4 \<Rightarrow> shape4 list \<Rightarrow> error + shape4 \<times> shape4 list" where
  "down_pass [] x down_outputs = Inr (x, down_outputs)"
| "down_pass (l # ls) x down_outputs =
     (case sequential l x of
        Inl e \<Rightarrow> Inl e
      | Inr x' \<Rightarrow> down_pass ls x' (down_outputs @ [x']))"

fun up_pass :: "(nat \<times> layer list) list \<Rightarrow> shape4 list \<Rightarrow> shape4 \<Rightarrow> error + shape4" where
  "up_pass [] down_outputs x = Inr x"
| "up_pass ((i, l) # rest) down_outputs x =
     (case sequential l x of
        Inl e \<Rightarrow> Inl e
      | Inr x' \<Rightarrow>
          (case py_index down_outputs (- (int i + 1)) of
             Inl e \<Rightarrow> Inl e
           | Inr skip_connection \<Rightarrow>
               (case cat_dim1 x' skip_connection of
                  Inl e \<Rightarrow> Inl e
                | Inr x'' \<Rightarrow> up_pass rest down_outputs x'')))"

definition forward :: "unet \<Rightarrow> shape4 \<Rightarrow> error + shape4" where
  "forward u x =
     (case down_pass (down_layers u) x [] of
        Inl e \<Rightarrow> Inl e
      | Inr (x1, down_outputs) \<Rightarrow>
          (case sequential (bottleneck u) x1 of
             Inl e \<Rightarrow> Inl e
           | Inr x2 \<Rightarrow>
               (case up_pass (enumerate 0 (up_layers u)) down_outputs x2 of
                  Inl e \<Rightarrow> Inl e
                | Inr x3 \<Rightarrow> layer_shape (output_layer u) x3)))"

text \<open>
  The expression \<open>UNet(*args)(x)\<close>: the network is built, then called on one tensor.
\<close>

definition UNet_apply :: "pynum list \<Rightarrow> shape4 \<Rightarrow> error + shape4" where
  "UNet_apply args x =
     (case UNet_new args of Inl e \<Rightarrow> Inl e | Inr u \<Rightarrow> forward u x)"

section \<open>Tensors\<close>

text \<open>
  Tensors and the operations on them are torch's, not the repository's: the ones the
  script uses are modelled after the library's documented behaviour.

  An element is a real number or NaN: the arithmetic is exact, so rounding, overflow
  and the infinities of IEEE floats are not modelled; NaN is kept because the mean of
  an empty tensor is NaN and not an error.
\<close>

datatype fval = Finite real | NaN

fun fadd :: "fval \<Rightarrow> fval \<Rightarrow> fval" where
  "fadd (Finite a) (Finite b) = Finite (a + b)"
| "fadd _ _ = NaN"

fun fsub :: "fval \<Rightarrow> fval \<Rightarrow> fval" where
  "fsub (Finite a) (Finite b) = Finite (a - b)"
| "fsub _ _ = NaN"

fun fmul :: "fval \<Rightarrow> fval \<Rightarrow> fval" where
  "fmul (Finite a) (Finite b) = Finite (a * b)"
| "fmul _ _ = NaN"

fun fdiv_count :: "fval \<Rightarrow> nat \<Rightarrow> fval" where
  "fdiv_count (Finite a) n = Finite (a / real n)"
| "fdiv_count NaN n = NaN"

definition fmean :: "fval list \<Rightarrow> fval" where
  "fmean xs =
     (if xs = [] then NaN else fdiv_count (foldl fadd (Finite 0) xs) (length xs))"

text \<open>
  A tensor is its shape, its elements in row-major order, and the flag that says
  whether autograd can differentiate it (\<open>requires_grad\<close>, true for a result that has a
  \<open>grad_fn\<close>). Devices and dtypes are not modelled.
\<close>

record tensor =
  shape :: "nat list"
  data :: "fval list"
  requires_grad :: bool

definition nelement :: "tensor \<Rightarrow> nat" where
  "nelement t = prod_list (shape t)"

definition well_formed :: "tensor \<Rightarrow> bool" where
  "well_formed t = (length (data t) = prod_list (shape t))"

text \<open>\<open>torch.tensor(c)\<close> and the element \<open>s[i]\<close> of a 1-D tensor: a 0-dimensional tensor.\<close>

definition scalar_tensor :: "fval \<Rightarrow> tensor" where
  "scalar_tensor c = \<lparr>shape = [], data = [c], requires_grad = False\<rparr>"

subsection \<open>Broadcasting\<close>

text \<open>
  Two shapes are aligned at their last dimension; a dimension of size 1 is stretched
  to the other's size, and any other disagreement is an error.
\<close>

fun broadcast_rev :: "nat list \<Rightarrow> nat list \<Rightarrow> nat list option" where
  "broadcast_rev [] bs = Some bs"
| "broadcast_rev (a # as) [] = Some (a # as)"
| "broadcast_rev (a # as) (b # bs) =
     (if a = b then map_option (Cons a) (broadcast_rev as bs)
      else if a = 1 then map_option (Cons b) (broadcast_rev as bs)
      else if b = 1 then map_option (Cons a) (broadcast_rev as bs)
      else None)"

definition broadcast_shapes :: "nat list \<Rightarrow> nat list \<Rightarrow> nat list option" where
  "broadcast_shapes s1 s2 = map_option rev (broadcast_rev (rev s1) (rev s2))"

text \<open>Every index of a shape, in row-major order, and the position of an index.\<close>

fun indices :: "nat list \<Rightarrow> nat list list" where
  "indices [] = [[]]"
| "indices (n # ns) = concat (map (\<lambda>i. map (Cons i) (indices ns)) [0..<n])"

fun offset :: "nat list \<Rightarrow> nat list \<Rightarrow> nat" where
  "offset (n # ns) (i # idx) = i * prod_list ns + offset ns idx"
| "offset ns idx = 0"

text \<open>
  The index in a tensor of shape \<open>s\<close> of the element that broadcasting puts at \<open>idx\<close>
  of the result: the leading dimensions that \<open>s\<close> lacks are dropped, and a stretched
  dimension is read at 0.
\<close>

definition source_index :: "nat list \<Rightarrow> nat list \<Rightarrow> nat list" where
  "source_index s idx =
     map2 (\<lambda>n i. if n = 1 then 0 else i) s (drop (length idx - length s) idx)"

definition expand :: "tensor \<Rightarrow> nat list \<Rightarrow> fval list" where
  "expand t target =
     map (\<lambda>idx. data t ! offset (shape t) (source_index (shape t) idx)) (indices target)"

definition elementwise :: "(fval \<Rightarrow> fval \<Rightarrow> fval) \<Rightarrow> tensor \<Rightarrow> tensor \<Rightarrow> error + tensor" where
  "elementwise f a b =
     (case broadcast_shapes (shape a) (shape b) of
        None \<Rightarrow> Inl (RuntimeError ''the size of tensor a must match the size of tensor b'')
      | Some s \<Rightarrow>
          Inr \<lparr>shape = s, data = map2 f (expand a s) (expand b s),
               requires_grad = (requires_grad a \<or> requires_grad b)\<rparr>)"

definition t_add :: "tensor \<Rightarrow> tensor \<Rightarrow> error + tensor" where
  "t_add = elementwise fadd"

definition t_sub :: "tensor \<Rightarrow> tensor \<Rightarrow> error + tensor" where
  "t_sub = elementwise fsub"

definition t_mul :: "tensor \<Rightarrow> tensor \<Rightarrow> error + tensor" where
  "t_mul = elementwise fmul"

text \<open>\<open>x ** 2\<close> and \<open>torch.mean(x)\<close>.\<close>

definition t_square :: "tensor \<Rightarrow> tensor" where
  "t_square t = t\<lparr>data := map (\<lambda>x. fmul x x) (data t)\<rparr>"

definition t_mean :: "tensor \<Rightarrow> tensor" where
  "t_mean t = \<lparr>shape = [], data = [fmean (data t)], requires_grad = requires_grad t\<rparr>"

subsection \<open>Indexing\<close>

text \<open>
  \<open>x[mask]\<close> with a 1-D boolean mask keeps the sub-tensors along dimension 0 whose
  mask entry is true; the mask must be as long as that dimension.
\<close>

definition mask_index :: "tensor \<Rightarrow> bool list \<Rightarrow> error + tensor" where
  "mask_index t m =
     (case shape t of
        [] \<Rightarrow> Inl (IndexError ''too many indices for tensor of dimension 0'')
      | n # ns \<Rightarrow>
          if n = length m then
            Inr \<lparr>shape = length (filter id m) # ns,
                 data = concat (map (\<lambda>i. take (prod_list ns) (drop (i * prod_list ns) (data t)))
                                    (filter (nth m) [0..<n])),
                 requires_grad = requires_grad t\<rparr>
          else Inl (IndexError ''the shape of the mask does not match the indexed tensor''))"

text \<open>\<open>y == c\<close> for a 1-D tensor of integer labels.\<close>

definition eq_mask :: "int list \<Rightarrow> int \<Rightarrow> bool list" where
  "eq_mask y c = map (\<lambda>l. l = c) y"

text \<open>
  \<open>x[:, :, lo:hi]\<close> with non-negative bounds (\<open>None\<close> for an open end): the bounds are
  clamped to the size of dimension 2, as Python slices are.
\<close>

definition slice_dim2 :: "tensor \<Rightarrow> nat \<Rightarrow> nat option \<Rightarrow> error + tensor" where
  "slice_dim2 t lo hi =
     (case shape t of
        d0 # d1 # d2 # ds \<Rightarrow>
          (let a = min lo d2;
               b = max a (min (case hi of None \<Rightarrow> d2 | Some h \<Rightarrow> h) d2);
               s = d0 # d1 # (b - a) # ds
           in Inr \<lparr>shape = s,
                   data = map (\<lambda>idx. data t ! offset (shape t) (idx[2 := idx ! 2 + a]))
                              (indices s),
                   requires_grad = requires_grad t\<rparr>)
      | _ \<Rightarrow> Inl (IndexError ''too many indices for tensor''))"

section \<open>The network as the script calls it\<close>

text \<open>
  Every call site of the script passes the network two positional arguments: a tensor
  and either a tensor (\<open>forward_forward\<close>) or the step index (the training loop and
  \<open>sample\<close>). A Python callable can read and change anything, so a network is a
  function on the state of the world \<open>'w\<close> that it runs in.
\<close>

datatype pyarg = TensorArg tensor | IntArg int

type_synonym 'w net = "tensor \<Rightarrow> pyarg \<Rightarrow> 'w \<Rightarrow> (error + tensor) \<times> 'w"

text \<open>
  The object \<open>model\<close> as \<open>sample\<close> and the training loop use it: it is called, and its
  attributes \<open>alphas_cumprod\<close> and \<open>sqrt_alphas_cumprod\<close> (1-D tensors) are read. An
  attribute the object does not have is \<open>None\<close>.
\<close>

record 'w module =
  call2 :: "'w net"
  alphas_cumprod :: "fval list option"
  sqrt_alphas_cumprod :: "fval list option"

definition getattr :: "'a option \<Rightarrow> string \<Rightarrow> error + 'a" where
  "getattr v name = (case v of None \<Rightarrow> Inl (AttributeError name) | Some x \<Rightarrow> Inr x)"

text \<open>
  An instance of the class \<open>UNet\<close>: \<open>forward(self, x)\<close> takes one tensor, so a call with
  two raises TypeError, and the class defines neither schedule attribute.
\<close>

definition UNet_module :: "unet \<Rightarrow> 'w module" where
  "UNet_module u =
     \<lparr>call2 = (\<lambda>x a w.
         (Inl (TypeError ''forward() takes 2 positional arguments but 3 were given''), w)),
      alphas_cumprod = None,
      sqrt_alphas_cumprod = None\<rparr>"

section \<open>forward_forward\<close>

definition forward_forward ::
  "'w net \<Rightarrow> tensor \<Rightarrow> tensor \<Rightarrow> int list \<Rightarrow> 'w \<Rightarrow> (error + tensor) \<times> 'w" where
  "forward_forward model X_left X_right y w =
     (case mask_index X_left (eq_mask y 1) of
        Inl e \<Rightarrow> (Inl e, w)
      | Inr X_pos_left \<Rightarrow>
     (case mask_index X_left (eq_mask y 0) of
        Inl e \<Rightarrow> (Inl e, w)
      | Inr X_neg_left \<Rightarrow>
     (case mask_index X_right (eq_mask y 1) of
        Inl e \<Rightarrow> (Inl e, w)
      | Inr X_pos_right \<Rightarrow>
     (case mask_index X_right (eq_mask y 0) of
        Inl e \<Rightarrow> (Inl e, w)
      | Inr X_neg_right \<Rightarrow>
          if nelement X_pos_left = 0 \<or> nelement X_neg_left = 0
          then (Inr (scalar_tensor (Finite 0)), w)
          else
            (case model X_pos_left (TensorArg X_pos_right) w of
               (Inl e, w1) \<Rightarrow> (Inl e, w1)
             | (Inr out_pos, w1) \<Rightarrow>
                 (case model X_neg_left (TensorArg X_neg_right) w1 of
                    (Inl e, w2) \<Rightarrow> (Inl e, w2)
                  | (Inr out_neg, w2) \<Rightarrow>
                      (case t_sub out_pos out_neg of
                         Inl e \<Rightarrow> (Inl e, w2)
                       | Inr d \<Rightarrow> (Inr (t_mean (t_square d)), w2))))))))"

section \<open>sample\<close>

text \<open>
  One pass of the loop body, \<open>noise = model(noise, i) * sqrt_alphas_cumprod[i]\<close>: the
  call is evaluated before the subscript.
\<close>

definition sample_step :: "'w net \<Rightarrow> fval list \<Rightarrow> tensor \<Rightarrow> int \<Rightarrow> 'w \<Rightarrow> (error + tensor) \<times> 'w" where
  "sample_step model s noise i w =
     (case model noise (IntArg i) w of
        (Inl e, w') \<Rightarrow> (Inl e, w')
      | (Inr out, w') \<Rightarrow>
          (case py_index s i of
             Inl e \<Rightarrow> (Inl e, w')
           | Inr c \<Rightarrow> (t_mul out (scalar_tensor c), w')))"

fun sample_loop :: "'w net \<Rightarrow> fval list \<Rightarrow> int list \<Rightarrow> tensor \<Rightarrow> 'w \<Rightarrow> (error + tensor) \<times> 'w" where
  "sample_loop model s [] noise w = (Inr noise, w)"
| "sample_loop model s (i # rest) noise w =
     (case sample_step model s noise i w of
        (Inl e, w') \<Rightarrow> (Inl e, w')
      | (Inr noise', w') \<Rightarrow> sample_loop model s rest noise' w')"

definition sample :: "'w module \<Rightarrow> tensor \<Rightarrow> int \<Rightarrow> 'w \<Rightarrow> (error + tensor) \<times> 'w" where
  "sample model noise steps w =
     (case getattr (alphas_cumprod model) ''alphas_cumprod'' of
        Inl e \<Rightarrow> (Inl e, w)
      | Inr alphas \<Rightarrow>
          (case getattr (sqrt_alphas_cumprod model) ''sqrt_alphas_cumprod'' of
             Inl e \<Rightarrow> (Inl e, w)
           | Inr s \<Rightarrow> sample_loop (call2 model) s (range_down (steps - 1)) noise w))"

section \<open>The state of the script, and torch's effects on it\<close>

text \<open>
  What the statements of the script read and change: the parameters of the network,
  their gradients (\<open>None\<close> once cleared), the state of the optimizer, the state of
  torch's random generator, and what was printed. \<open>fed\<close> is an observer's record: the
  arguments of every call of a network wrapped by \<open>logged\<close>, in order.
\<close>

record progress =
  at_epoch :: int
  images_done :: int
  images_total :: int
  percent :: real
  last_loss :: fval

record ('p, 'o, 'r) world =
  params :: 'p
  grads :: "'p option"
  opt_state :: 'o
  rng :: 'r
  fed :: "(tensor \<times> pyarg) list"
  printed :: "progress list"

text \<open>
  The random generator, autograd and the Adam update are torch's, not the
  repository's. They are parameters: \<open>normal r n\<close> draws \<open>n\<close> standard-normal values from
  generator state \<open>r\<close>, \<open>autograd loss p g\<close> is the content of the \<open>.grad\<close> buffers after
  backpropagating a differentiable \<open>loss\<close>, and \<open>adam\<close> is one update of the optimizer.
\<close>

record ('p, 'o, 'r) torch =
  normal :: "'r \<Rightarrow> nat \<Rightarrow> fval list \<times> 'r"
  autograd :: "tensor \<Rightarrow> 'p \<Rightarrow> 'p option \<Rightarrow> 'p option"
  adam :: "'o \<Rightarrow> 'p \<Rightarrow> 'p option \<Rightarrow> 'o \<times> 'p"

definition randn ::
  "('p, 'o, 'r) torch \<Rightarrow> nat list \<Rightarrow> ('p, 'o, 'r) world \<Rightarrow> tensor \<times> ('p, 'o, 'r) world" where
  "randn env s w =
     (case normal env (rng w) (prod_list s) of
        (xs, r) \<Rightarrow> (\<lparr>shape = s, data = xs, requires_grad = False\<rparr>, w\<lparr>rng := r\<rparr>))"

definition randn_like ::
  "('p, 'o, 'r) torch \<Rightarrow> tensor \<Rightarrow> ('p, 'o, 'r) world \<Rightarrow> tensor \<times> ('p, 'o, 'r) world" where
  "randn_like env t w = randn env (shape t) w"

text \<open>
  \<open>loss.backward()\<close>: a tensor that does not require grad has no graph to walk, and
  torch raises; a differentiable tensor must hold one element.
\<close>

definition backward ::
  "('p, 'o, 'r) torch \<Rightarrow> tensor \<Rightarrow> ('p, 'o, 'r) world \<Rightarrow> (error + unit) \<times> ('p, 'o, 'r) world" where
  "backward env loss w =
     (if requires_grad loss then
        if nelement loss = 1
        then (Inr (), w\<lparr>grads := autograd env loss (params w) (grads w)\<rparr>)
        else (Inl (RuntimeError ''grad can be implicitly created only for scalar outputs''), w)
      else
        (Inl (RuntimeError
           ''element 0 of tensors does not require grad and does not have a grad_fn''), w))"

definition zero_grad :: "('p, 'o, 'r) world \<Rightarrow> ('p, 'o, 'r) world" where
  "zero_grad w = w\<lparr>grads := None\<rparr>"

definition optimizer_step ::
  "('p, 'o, 'r) torch \<Rightarrow> ('p, 'o, 'r) world \<Rightarrow> ('p, 'o, 'r) world" where
  "optimizer_step env w =
     (case adam env (opt_state w) (params w) (grads w) of
        (s, p) \<Rightarrow> w\<lparr>opt_state := s, params := p\<rparr>)"

text \<open>\<open>loss.item()\<close>.\<close>

definition item :: "tensor \<Rightarrow> error + fval" where
  "item t =
     (case data t of
        [x] \<Rightarrow> Inr x
      | _ \<Rightarrow> Inl (RuntimeError ''a Tensor with several elements cannot be converted to Scalar''))"

text \<open>The observer: a module whose every call is recorded before it runs.\<close>

definition logged :: "('p, 'o, 'r) world module \<Rightarrow> ('p, 'o, 'r) world module" where
  "logged model =
     model\<lparr>call2 := (\<lambda>x a w. call2 model x a (w\<lparr>fed := fed w @ [(x, a)]\<rparr>))\<rparr>"

section \<open>The training loop\<close>

definition diffusion_steps :: int where
  "diffusion_steps = 1000"

text \<open>
  Lines 119 and 120 of the script: \<open>noise\<close>, then \<open>noisy_images\<close>. The draw comes first
  in \<open>torch.randn_like(images) * model.sqrt_alphas_cumprod[t]\<close>, before the attribute
  is looked up.
\<close>

definition noisy_batch ::
  "('p, 'o, 'r) torch \<Rightarrow> ('p, 'o, 'r) world module \<Rightarrow> tensor \<Rightarrow> int \<Rightarrow> ('p, 'o, 'r) world
     \<Rightarrow> (error + tensor \<times> tensor) \<times> ('p, 'o, 'r) world" where
  "noisy_batch env model images t w =
     (case randn_like env images w of
        (z, w1) \<Rightarrow>
     (case getattr (sqrt_alphas_cumprod model) ''sqrt_alphas_cumprod'' of
        Inl e \<Rightarrow> (Inl e, w1)
      | Inr s \<Rightarrow>
     (case py_index s t of
        Inl e \<Rightarrow> (Inl e, w1)
      | Inr s_t \<Rightarrow>
     (case t_mul z (scalar_tensor s_t) of
        Inl e \<Rightarrow> (Inl e, w1)
      | Inr noise \<Rightarrow>
     (case getattr (alphas_cumprod model) ''alphas_cumprod'' of
        Inl e \<Rightarrow> (Inl e, w1)
      | Inr a \<Rightarrow>
     (case py_index a t of
        Inl e \<Rightarrow> (Inl e, w1)
      | Inr a_t \<Rightarrow>
     (case t_mul images (scalar_tensor a_t) of
        Inl e \<Rightarrow> (Inl e, w1)
      | Inr signal \<Rightarrow>
     (case t_add signal noise of
        Inl e \<Rightarrow> (Inl e, w1)
      | Inr noisy_images \<Rightarrow> (Inr (noise, noisy_images), w1)))))))))"

text \<open>\<open>optimizer.zero_grad(); loss.backward(); optimizer.step()\<close>.\<close>

definition optimize ::
  "('p, 'o, 'r) torch \<Rightarrow> tensor \<Rightarrow> ('p, 'o, 'r) world \<Rightarrow> (error + unit) \<times> ('p, 'o, 'r) world" where
  "optimize env loss w =
     (case backward env loss (zero_grad w) of
        (Inl e, w') \<Rightarrow> (Inl e, w')
      | (Inr u, w') \<Rightarrow> (Inr (), optimizer_step env w'))"

text \<open>
  Lines 124 to 129: the contrastive loss of the batch, and one update of the
  parameters with it.
\<close>

definition contrastive_update ::
  "('p, 'o, 'r) torch \<Rightarrow> ('p, 'o, 'r) world module \<Rightarrow> tensor \<Rightarrow> tensor \<Rightarrow> int list
     \<Rightarrow> ('p, 'o, 'r) world \<Rightarrow> (error + unit) \<times> ('p, 'o, 'r) world" where
  "contrastive_update env model X_left X_right labels w =
     (case forward_forward (call2 model) X_left X_right labels w of
        (Inl e, w1) \<Rightarrow> (Inl e, w1)
      | (Inr loss, w1) \<Rightarrow> optimize env loss w1)"

text \<open>
  Lines 132 to 138: the noise the network predicts for the noisy images, its mean
  squared error against the noise that was added, and one update with that loss.
\<close>

definition denoising_update ::
  "('p, 'o, 'r) torch \<Rightarrow> ('p, 'o, 'r) world module \<Rightarrow> tensor \<Rightarrow> tensor \<Rightarrow> int
     \<Rightarrow> ('p, 'o, 'r) world \<Rightarrow> (error + tensor) \<times> ('p, 'o, 'r) world" where
  "denoising_update env model noisy_images noise t w =
     (case call2 model noisy_images (IntArg t) w of
        (Inl e, w1) \<Rightarrow> (Inl e, w1)
      | (Inr pred_noise, w1) \<Rightarrow>
     (case t_sub pred_noise noise of
        Inl e \<Rightarrow> (Inl e, w1)
      | Inr d \<Rightarrow>
     (case optimize env (t_mean (t_square d)) w1 of
        (Inl e, w2) \<Rightarrow> (Inl e, w2)
      | (Inr u, w2) \<Rightarrow> (Inr (t_mean (t_square d)), w2))))"

text \<open>The body of the loop over the noise steps, lines 119 to 138; it returns \<open>loss\<close>.\<close>

definition train_iteration ::
  "('p, 'o, 'r) torch \<Rightarrow> ('p, 'o, 'r) world module \<Rightarrow> tensor \<Rightarrow> int list \<Rightarrow> tensor \<Rightarrow> tensor
     \<Rightarrow> int \<Rightarrow> ('p, 'o, 'r) world \<Rightarrow> (error + tensor) \<times> ('p, 'o, 'r) world" where
  "train_iteration env model images labels X_left X_right t w =
     (case noisy_batch env model images t w of
        (Inl e, w1) \<Rightarrow> (Inl e, w1)
      | (Inr (noise, noisy_images), w1) \<Rightarrow>
     (case call2 model noisy_images (IntArg t) w1 of
        (Inl e, w2) \<Rightarrow> (Inl e, w2)
      | (Inr model_output, w2) \<Rightarrow>
     (case contrastive_update env model X_left X_right labels w2 of
        (Inl e, w3) \<Rightarrow> (Inl e, w3)
      | (Inr u, w3) \<Rightarrow> denoising_update env model noisy_images noise t w3)))"

text \<open>
  \<open>for t in range(diffusion_steps - 1, -1, -1)\<close>. The variable \<open>loss\<close> outlives the
  loop; it is \<open>None\<close> while it is unbound.
\<close>

fun steps_loop ::
  "('p, 'o, 'r) torch \<Rightarrow> ('p, 'o, 'r) world module \<Rightarrow> tensor \<Rightarrow> int list \<Rightarrow> tensor \<Rightarrow> tensor
     \<Rightarrow> int list \<Rightarrow> tensor option \<Rightarrow> ('p, 'o, 'r) world
     \<Rightarrow> (error + tensor option) \<times> ('p, 'o, 'r) world" where
  "steps_loop env model images labels X_left X_right [] loss w = (Inr loss, w)"
| "steps_loop env model images labels X_left X_right (t # ts) loss w =
     (case train_iteration env model images labels X_left X_right t w of
        (Inl e, w') \<Rightarrow> (Inl e, w')
      | (Inr loss', w') \<Rightarrow>
          steps_loop env model images labels X_left X_right ts (Some loss') w')"

text \<open>The progress line, printed when \<open>batch_idx % 100 == 0\<close>.\<close>

definition print_progress ::
  "int \<Rightarrow> int \<Rightarrow> tensor \<Rightarrow> nat \<Rightarrow> nat \<Rightarrow> tensor option \<Rightarrow> ('p, 'o, 'r) world
     \<Rightarrow> (error + unit) \<times> ('p, 'o, 'r) world" where
  "print_progress epoch batch_idx images dataset_size n_batches loss w =
     (if batch_idx mod 100 = 0 then
        (case loss of
           None \<Rightarrow> (Inl (NameError ''loss''), w)
         | Some l \<Rightarrow>
             (case item l of
                Inl e \<Rightarrow> (Inl e, w)
              | Inr v \<Rightarrow>
                  (Inr (),
                   w\<lparr>printed := printed w @
                      [\<lparr>at_epoch = epoch,
                        images_done = batch_idx * int (hd (shape images)),
                        images_total = int dataset_size,
                        percent = 100 * real_of_int batch_idx / real n_batches,
                        last_loss = v\<rparr>]\<rparr>)))
      else (Inr (), w))"

text \<open>
  One batch: \<open>images[:, :, :14]\<close> and \<open>images[:, :, 14:]\<close>, the loop over the noise
  steps, the progress line.
\<close>

definition train_batch ::
  "('p, 'o, 'r) torch \<Rightarrow> ('p, 'o, 'r) world module \<Rightarrow> nat \<Rightarrow> nat \<Rightarrow> int \<Rightarrow> int
     \<Rightarrow> tensor \<times> int list \<Rightarrow> tensor option \<Rightarrow> ('p, 'o, 'r) world
     \<Rightarrow> (error + tensor option) \<times> ('p, 'o, 'r) world" where
  "train_batch env model dataset_size n_batches epoch batch_idx batch loss w =
     (case batch of
        (images, labels) \<Rightarrow>
     (case slice_dim2 images 0 (Some 14) of
        Inl e \<Rightarrow> (Inl e, w)
      | Inr X_left \<Rightarrow>
     (case slice_dim2 images 14 None of
        Inl e \<Rightarrow> (Inl e, w)
      | Inr X_right \<Rightarrow>
     (case steps_loop env model images labels X_left X_right
             (range_down (diffusion_steps - 1)) loss w of
        (Inl e, w1) \<Rightarrow> (Inl e, w1)
      | (Inr loss1, w1) \<Rightarrow>
     (case print_progress epoch batch_idx images dataset_size n_batches loss1 w1 of
        (Inl e, w2) \<Rightarrow> (Inl e, w2)
      | (Inr u, w2) \<Rightarrow> (Inr loss1, w2))))))"

fun batches_loop ::
  "('p, 'o, 'r) torch \<Rightarrow> ('p, 'o, 'r) world module \<Rightarrow> nat \<Rightarrow> nat \<Rightarrow> int
     \<Rightarrow> (nat \<times> tensor \<times> int list) list \<Rightarrow> tensor option \<Rightarrow> ('p, 'o, 'r) world
     \<Rightarrow> (error + tensor option) \<times> ('p, 'o, 'r) world" where
  "batches_loop env model dataset_size n_batches epoch [] loss w = (Inr loss, w)"
| "batches_loop env model dataset_size n_batches epoch ((batch_idx, batch) # rest) loss w =
     (case train_batch env model dataset_size n_batches epoch (int batch_idx) batch loss w of
        (Inl e, w') \<Rightarrow> (Inl e, w')
      | (Inr loss', w') \<Rightarrow> batches_loop env model dataset_size n_batches epoch rest loss' w')"

fun epochs_loop ::
  "('p, 'o, 'r) torch \<Rightarrow> ('p, 'o, 'r) world module \<Rightarrow> nat \<Rightarrow> (tensor \<times> int list) list
     \<Rightarrow> int list \<Rightarrow> tensor option \<Rightarrow> ('p, 'o, 'r) world
     \<Rightarrow> (error + tensor option) \<times> ('p, 'o, 'r) world" where
  "epochs_loop env model dataset_size train_loader [] loss w = (Inr loss, w)"
| "epochs_loop env model dataset_size train_loader (epoch # rest) loss w =
     (case batches_loop env model dataset_size (length train_loader) epoch
             (enumerate 0 train_loader) loss w of
        (Inl e, w') \<Rightarrow> (Inl e, w')
      | (Inr loss', w') \<Rightarrow> epochs_loop env model dataset_size train_loader rest loss' w')"

definition training ::
  "('p, 'o, 'r) torch \<Rightarrow> ('p, 'o, 'r) world module \<Rightarrow> nat \<Rightarrow> (tensor \<times> int list) list
     \<Rightarrow> ('p, 'o, 'r) world \<Rightarrow> (error + tensor option) \<times> ('p, 'o, 'r) world" where
  "training env model dataset_size train_loader w =
     epochs_loop env model dataset_size train_loader (py_range 10) None w"

section \<open>The script\<close>

text \<open>
  The statements of the module, in order, from \<open>model = UNet()\<close> on: the construction
  of the network, the training loop, then \<open>torch.randn(64, 1, 28, 28)\<close> and \<open>sample\<close>.
  The batches the data loader yields (one epoch's worth, each a tensor of images and a
  1-D tensor of labels) and the size of the data set are given; the world holds the
  parameters and the optimizer state that \<open>UNet()\<close> and \<open>optim.Adam\<close> would create.
  The network is observed through \<open>logged\<close>. An exception ends the script.
\<close>

definition script ::
  "('p, 'o, 'r) torch \<Rightarrow> (tensor \<times> int list) list \<Rightarrow> nat \<Rightarrow> ('p, 'o, 'r) world
     \<Rightarrow> (error + tensor) \<times> ('p, 'o, 'r) world" where
  "script env train_loader dataset_size w =
     (case UNet_new [] of
        Inl e \<Rightarrow> (Inl e, w)
      | Inr u \<Rightarrow>
          (case training env (logged (UNet_module u)) dataset_size train_loader w of
             (Inl e, w1) \<Rightarrow> (Inl e, w1)
           | (Inr loss, w1) \<Rightarrow>
               (case randn env [64, 1, 28, 28] w1 of
                  (noise, w2) \<Rightarrow> sample (logged (UNet_module u)) noise diffusion_steps w2)))"

section \<open>What the specification says, for comparison\<close>



text \<open>
  The noisy image in the specification's words, element by element:
  \<open>image * alphas_cumprod[t] + (noise * sqrt_alphas_cumprod[t])\<close> for a standard-normal
  \<open>noise\<close> of the image's shape.
\<close>

definition noisy_image :: "tensor \<Rightarrow> tensor \<Rightarrow> fval \<Rightarrow> fval \<Rightarrow> tensor" where
  "noisy_image img z a_t s_t =
     \<lparr>shape = shape img,
      data = map2 (\<lambda>x n. fadd (fmul x a_t) (fmul n s_t)) (data img) (data z),
      requires_grad = (requires_grad img \<or> requires_grad z)\<rparr>"

text \<open>
  Exchanging which label is the positive one: every 1 becomes 0 and every 0 becomes 1.
\<close>

definition swap_labels :: "int list \<Rightarrow> int list" where
  "swap_labels y = map (\<lambda>l. if l = 1 then 0 else if l = 0 then 1 else l) y"

section \<open>Concrete inputs\<close>

text \<open>
  Small tensors, a network that returns its second argument when it is a tensor and
  its first otherwise, a network that returns its first argument, and a module that
  carries the former and a two-step schedule.
\<close>

definition tensor_of :: "nat list \<Rightarrow> real list \<Rightarrow> tensor" where
  "tensor_of s xs = \<lparr>shape = s, data = map Finite xs, requires_grad = False\<rparr>"

definition second_arg_net :: "'w net" where
  "second_arg_net x a w = (case a of TensorArg r \<Rightarrow> (Inr r, w) | IntArg i \<Rightarrow> (Inr x, w))"

definition first_arg_net :: "'w net" where
  "first_arg_net x a w = (Inr x, w)"

definition echo_module :: "'w module" where
  "echo_module =
     \<lparr>call2 = second_arg_net,
      alphas_cumprod = Some [Finite 1, Finite (1 / 2)],
      sqrt_alphas_cumprod = Some [Finite 2, Finite 3]\<rparr>"

text \<open>A world with nothing learnt, nothing drawn and nothing printed.\<close>

definition world0 :: "(unit, unit, nat) world" where
  "world0 = \<lparr>params = (), grads = None, opt_state = (), rng = 0, fed = [], printed = []\<rparr>"

text \<open>
  A stand-in for torch: every draw is 1, backpropagation fills the gradients, and the
  optimizer leaves the parameters alone.
\<close>

definition torch0 :: "(unit, unit, nat) torch" where
  "torch0 =
     \<lparr>normal = (\<lambda>r n. (replicate n (Finite 1), r + n)),
      autograd = (\<lambda>loss p g. Some ()),
      adam = (\<lambda>s p g. (s, p))\<rparr>"

text \<open>A module with a schedule for all of the script's steps.\<close>

definition schedule_module :: "'w module" where
  "schedule_module =
     \<lparr>call2 = second_arg_net,
      alphas_cumprod = Some (replicate 1000 (Finite (1 / 2))),
      sqrt_alphas_cumprod = Some (replicate 1000 (Finite 3))\<rparr>"

text \<open>
  A network assembled by hand from the three kinds of block, with one stage down and
  one stage up, as \<open>__init__\<close> would lay it out if it returned.
\<close>

definition hand_built_unet :: unet where
  "hand_built_unet =
     \<lparr>down_layers = [[Conv2d 1 8 3 1, LeakyReLU, Conv2d 8 8 3 1, LeakyReLU, MaxPool2d 2]],
      bottleneck = [Conv2d 8 8 3 1, LeakyReLU, Conv2d 8 8 3 1, LeakyReLU],
      up_layers = [[ConvTranspose2d 8 4 2 2, LeakyReLU, Conv2d 4 4 3 1, LeakyReLU,
                    Conv2d 4 4 3 1, LeakyReLU]],
      output_layer = Conv2d 12 8 3 1\<rparr>"



section \<open>The constructor never returns\<close>

lemma py_pow2_neg: "e < 0 \<Longrightarrow> \<exists>r. py_pow2 e = PyFloat r"
  by (simp add: py_pow2_def)

lemma py_mul_float_left: "\<exists>r. py_mul (PyFloat a) x = PyFloat r"
  by (cases x) simp_all

lemma weight_sizes_float_right: "\<exists>e. weight_sizes a (PyFloat r) = Inl e"
  by (cases a) simp_all

lemma weight_sizes_float_left: "\<exists>e. weight_sizes (PyFloat r) b = Inl e"
  by simp

lemma conv_channels_float_right: "\<exists>e. conv_channels a (PyFloat r) = Inl e"
  using weight_sizes_float_right [of a r] by (auto simp: conv_channels_def)

lemma conv_channels_float_left: "\<exists>e. conv_channels (PyFloat r) b = Inl e"
  by (auto simp: conv_channels_def)

lemma up_block_float: "\<exists>e. up_block a (PyFloat r) = Inl e"
  using conv_channels_float_right [of a r]
  by (auto simp: up_block_def new_ConvTranspose2d_def)

lemma bottleneck_block_float: "\<exists>e. bottleneck_block (PyFloat r) b = Inl e"
  using conv_channels_float_left [of r b]
  by (auto simp: bottleneck_block_def new_Conv2d_def)

lemma up_out_ch_0: "\<exists>r. up_out_ch out_channels 0 = PyFloat r"
  using py_mul_float_left by (simp add: up_out_ch_def py_pow2_def)

lemma up_loop_last_stage: "\<exists>e. up_loop out_channels num_layers (stages @ [0]) = Inl e"
proof (induction stages)
  case Nil
  obtain r where "up_out_ch out_channels 0 = PyFloat r"
    using up_out_ch_0 by blast
  then show ?case
    using up_block_float [of "up_in_ch out_channels num_layers 0" r] by auto
next
  case (Cons i stages)
  then show ?case
    by (auto split: sum.splits)
qed

lemma rev_py_range: "1 \<le> n \<Longrightarrow> rev (py_range n) = rev [1..n - 1] @ [0]"
  by (simp add: py_range_def upto_rec1 [of 0 "n - 1"])

lemma UNet_init_raises: "\<exists>e. UNet_init in_channels out_channels num_layers = Inl e"
proof (cases "1 \<le> num_layers")
  case True
  then obtain e where
    "up_loop out_channels num_layers (rev (py_range num_layers)) = Inl e"
    using up_loop_last_stage [of out_channels num_layers "rev [1..num_layers - 1]"]
    by (auto simp: rev_py_range)
  then show ?thesis
    by (auto simp: UNet_init_def split: sum.splits)
next
  case False
  then obtain r where "py_pow2 (num_layers - 1) = PyFloat r"
    using py_pow2_neg [of "num_layers - 1"] by auto
  then obtain r' where "py_mul (py_pow2 (num_layers - 1)) out_channels = PyFloat r'"
    using py_mul_float_left [of r out_channels] by auto
  then show ?thesis
    using bottleneck_block_float [of r' out_channels]
    by (auto simp: UNet_init_def split: sum.splits)
qed

section \<open>Claims about the constructor\<close>

text \<open>
  C8. For every \<open>in_channels\<close>, every \<open>out_channels\<close> and every \<open>num_layers \<ge> 1\<close>,
  constructing the network fails: the upsampling loop runs over
  \<open>reversed(range(num_layers))\<close>, whose last index is \<open>0\<close>; there the output channel
  count \<open>2 ** (i - 1) * out_channels\<close> is the float \<open>out_channels / 2\<close>, which the
  constructor of the transposed convolution refuses whatever its input channel count
  is, and \<open>UNet.__init__\<close> raises instead of returning a network.
\<close>

theorem UNet_init_never_returns:
  "1 \<le> num_layers \<Longrightarrow>
     last (rev (py_range num_layers)) = 0 \<and>
     up_out_ch (PyInt c) 0 = PyFloat (real_of_int c / 2) \<and>
     (\<exists>e. up_block in_ch (up_out_ch (PyInt c) 0) = Inl e) \<and>
     (\<exists>e. UNet_init in_channels (PyInt c) num_layers = Inl e)"
proof -
  assume n: "1 \<le> num_layers"
  have stage: "last (rev (py_range num_layers)) = 0"
    using n by (simp add: rev_py_range)
  have half: "up_out_ch (PyInt c) 0 = PyFloat (real_of_int c / 2)"
    by (simp add: up_out_ch_def py_pow2_def)
  have refused: "\<exists>e. up_block in_ch (up_out_ch (PyInt c) 0) = Inl e"
    unfolding half by (rule up_block_float)
  from stage half refused UNet_init_raises [of in_channels "PyInt c" num_layers]
  show ?thesis by blast
qed

theorem UNet_init_never_returns_witness:
  "last (rev (py_range 5)) = 0 \<and>
   up_out_ch (PyInt 64) 0 = PyFloat 32 \<and>
   (\<exists>e. up_block (PyInt 64) (up_out_ch (PyInt 64) 0) = Inl e) \<and>
   (\<exists>e. UNet_init (PyInt 1) (PyInt 64) 5 = Inl e)"
proof -
  have "(1::int) \<le> 5" by simp
  from UNet_init_never_returns [OF this, of 64 "PyInt 64" "PyInt 1"]
  show ?thesis by auto
qed

section \<open>The forward pass\<close>

text \<open>
  Were the constructor to return, with any channel counts, \<open>forward\<close> would still raise:
  a stage of \<open>down_layers\<close> ends with its pooling, so the tensor kept for the skip
  connection is the pooled one, of the height the bottleneck works at, while the first
  upsampling stage has doubled that height when \<open>torch.cat\<close> joins the two.
\<close>

lemma down_block_kind: "down_block a b = Inr l \<Longrightarrow> is_down_block l"
  by (auto simp: down_block_def new_Conv2d_def is_down_block_def split: sum.splits prod.splits)

lemma bottleneck_block_kind: "bottleneck_block a b = Inr l \<Longrightarrow> is_bottleneck_block l"
  by (auto simp: bottleneck_block_def new_Conv2d_def is_bottleneck_block_def
        split: sum.splits prod.splits)

lemma up_block_kind: "up_block a b = Inr l \<Longrightarrow> is_up_block l"
  by (auto simp: up_block_def new_Conv2d_def new_ConvTranspose2d_def is_up_block_def
        split: sum.splits prod.splits)

lemma conv_3_1_shape:
  "layer_shape (Conv2d a b 3 1) (n, c, h, w) = Inr y \<Longrightarrow> \<exists>c'. y = (n, c', h, w) \<and> 1 \<le> h \<and> 1 \<le> w"
  by (auto split: if_splits)

lemma down_block_shape:
  assumes "is_down_block l" and "sequential l (n, c, h, w) = Inr y"
  shows "\<exists>c'. y = (n, c', h div 2, w div 2) \<and> 1 \<le> h div 2 \<and> 1 \<le> w div 2"
proof -
  from assms(1) obtain a b c1 d where l:
    "l = [Conv2d a b 3 1, LeakyReLU, Conv2d c1 d 3 1, LeakyReLU, MaxPool2d 2]"
    by (auto simp: is_down_block_def)
  from assms(2) obtain y1 y2 where
    "layer_shape (Conv2d a b 3 1) (n, c, h, w) = Inr y1"
    "layer_shape (Conv2d c1 d 3 1) y1 = Inr y2"
    "layer_shape (MaxPool2d 2) y2 = Inr y"
    unfolding l by (auto split: sum.splits)
  moreover then obtain c' where "y1 = (n, c', h, w)"
    using conv_3_1_shape by blast
  moreover then obtain c'' where "y2 = (n, c'', h, w)"
    using conv_3_1_shape calculation(2) by blast
  ultimately have "y = (n, c'', (h - 2) div 2 + 1, (w - 2) div 2 + 1)" "2 \<le> h" "2 \<le> w"
    by (auto split: if_splits)
  moreover have "(h - 2) div 2 + 1 = h div 2" "(w - 2) div 2 + 1 = w div 2"
    using \<open>2 \<le> h\<close> \<open>2 \<le> w\<close> by presburger+
  moreover have "1 \<le> h div 2" "1 \<le> w div 2"
    using \<open>2 \<le> h\<close> \<open>2 \<le> w\<close> by presburger+
  ultimately show ?thesis
    by simp
qed

lemma bottleneck_block_shape:
  assumes "is_bottleneck_block l" and "sequential l (n, c, h, w) = Inr y"
  shows "\<exists>c'. y = (n, c', h, w)"
proof -
  from assms(1) obtain a b c1 d where l:
    "l = [Conv2d a b 3 1, LeakyReLU, Conv2d c1 d 3 1, LeakyReLU]"
    by (auto simp: is_bottleneck_block_def)
  from assms(2) obtain y1 where
    "layer_shape (Conv2d a b 3 1) (n, c, h, w) = Inr y1"
    "layer_shape (Conv2d c1 d 3 1) y1 = Inr y"
    unfolding l by (auto split: sum.splits)
  moreover then obtain c' where "y1 = (n, c', h, w)"
    using conv_3_1_shape by blast
  ultimately show ?thesis
    using conv_3_1_shape by blast
qed

lemma up_block_shape:
  assumes "is_up_block l" and "sequential l (n, c, h, w) = Inr y"
  shows "\<exists>c'. y = (n, c', 2 * h, 2 * w)"
proof -
  from assms(1) obtain a b c1 d e f where l:
    "l = [ConvTranspose2d a b 2 2, LeakyReLU, Conv2d c1 d 3 1, LeakyReLU,
          Conv2d e f 3 1, LeakyReLU]"
    by (auto simp: is_up_block_def)
  from assms(2) obtain y1 y2 where s:
    "layer_shape (ConvTranspose2d a b 2 2) (n, c, h, w) = Inr y1"
    "layer_shape (Conv2d c1 d 3 1) y1 = Inr y2"
    "layer_shape (Conv2d e f 3 1) y2 = Inr y"
    unfolding l by (auto split: sum.splits)
  from s(1) have "y1 = (n, b, (h - 1) * 2 + 2, (w - 1) * 2 + 2)" "0 < h" "0 < w"
    by (auto split: if_splits)
  moreover have "(h - 1) * 2 + 2 = 2 * h" "(w - 1) * 2 + 2 = 2 * w"
    using \<open>0 < h\<close> \<open>0 < w\<close> by presburger+
  ultimately have y1: "y1 = (n, b, 2 * h, 2 * w)"
    by simp
  then obtain c' where "y2 = (n, c', 2 * h, 2 * w)"
    using conv_3_1_shape s(2) by blast
  then show ?thesis
    using conv_3_1_shape s(3) by blast
qed

lemma down_pass_last:
  assumes "list_all is_down_block ls" and "ls \<noteq> []"
    and "down_pass ls x outs = Inr (x', outs')"
  shows "outs' \<noteq> [] \<and> last outs' = x' \<and> (\<exists>n c h w. x' = (n, c, h, w) \<and> 1 \<le> h)"
  using assms
proof (induction ls arbitrary: x outs)
  case Nil
  then show ?case by simp
next
  case (Cons l ls)
  obtain n c h w where x: "x = (n, c, h, w)"
    by (cases x)
  from Cons.prems(3) obtain x1 where
    x1: "sequential l x = Inr x1" and rest: "down_pass ls x1 (outs @ [x1]) = Inr (x', outs')"
    by (auto split: sum.splits)
  from Cons.prems(1) have "is_down_block l" by simp
  then obtain c' where shape: "x1 = (n, c', h div 2, w div 2)" "1 \<le> h div 2"
    using down_block_shape x1 x by blast
  show ?case
  proof (cases "ls = []")
    case True
    then show ?thesis using rest shape by auto
  next
    case False
    then show ?thesis
      using Cons.IH [OF _ False rest] Cons.prems(1) by simp
  qed
qed

lemma py_index_last: "xs \<noteq> [] \<Longrightarrow> py_index xs (- 1) = Inr (last xs)"
  by (cases xs rule: rev_cases) (simp_all add: py_index_def nth_append)

lemma forward_skip_never_fits:
  assumes down: "list_all is_down_block (down_layers u)" "down_layers u \<noteq> []"
    and mid: "is_bottleneck_block (bottleneck u)"
    and up: "list_all is_up_block (up_layers u)" "up_layers u \<noteq> []"
  shows "\<exists>e. forward u x = Inl e"
proof (rule ccontr)
  assume "\<nexists>e. forward u x = Inl e"
  then obtain y where y: "forward u x = Inr y"
    by (cases "forward u x") auto
  then obtain x1 outs x2 x3 where run:
    "down_pass (down_layers u) x [] = Inr (x1, outs)"
    "sequential (bottleneck u) x1 = Inr x2"
    "up_pass (enumerate 0 (up_layers u)) outs x2 = Inr x3"
    by (auto simp: forward_def split: sum.splits prod.splits)
  obtain n c h w where x1: "outs \<noteq> []" "last outs = x1" "x1 = (n, c, h, w)" "1 \<le> h"
    using down_pass_last [OF down run(1)] by blast
  obtain c2 where x2: "x2 = (n, c2, h, w)"
    using bottleneck_block_shape [OF mid] run(2) x1(3) by blast
  obtain l ls where ul: "up_layers u = l # ls"
    using up(2) by (cases "up_layers u") auto
  then have "is_up_block l"
    using up(1) by simp
  from run(3) obtain x4 x5 where first:
    "sequential l x2 = Inr x4" "cat_dim1 x4 x1 = Inr x5"
    unfolding ul using x1(1,2)
    by (auto simp: py_index_last split: sum.splits)
  obtain c4 where "x4 = (n, c4, 2 * h, 2 * w)"
    using up_block_shape [OF \<open>is_up_block l\<close>] first(1) x2 by blast
  then show False
    using first(2) x1(3,4) by (auto split: if_splits)
qed

lemma forward_hand_built:
  "forward hand_built_unet (1, 1, 4, 4) =
     Inl (RuntimeError ''sizes of tensors must match except in dimension 1'')"
  by code_simp

lemma UNet_new_raises: "\<exists>e. UNet_new args = Inl e"
  using UNet_init_raises by (cases args rule: UNet_new.cases) simp_all

text \<open>
  C2, as the code has it. The contract promises an output of the input's height and
  width. Building a network and calling it, \<open>UNet(*args)(x)\<close>, returns no tensor for any
  arguments and any input: the constructor raises. For the network of the data set,
  \<open>UNet(1, 64)\<close> on a batch of shape \<open>(64, 1, 28, 28)\<close>, the exception is the TypeError of
  the last upsampling stage, whose output channel count is the float 32.0.
\<close>

theorem UNet_apply_never_returns:
  "(\<exists>e. UNet_apply args x = Inl e) \<and>
   UNet_apply [PyInt 1, PyInt 64] (64, 1, 28, 28) =
     Inl (TypeError ''empty() received an invalid combination of arguments'')"
proof
  show "\<exists>e. UNet_apply args x = Inl e"
    using UNet_new_raises [of args] by (auto simp: UNet_apply_def)
  show "UNet_apply [PyInt 1, PyInt 64] (64, 1, 28, 28) =
     Inl (TypeError ''empty() received an invalid combination of arguments'')"
    by code_simp
qed

section \<open>Broadcasting with a scalar and with a tensor of the same shape\<close>

lemma broadcast_rev_Nil_right: "broadcast_rev s [] = Some s"
  by (cases s) simp_all

lemma broadcast_rev_same: "broadcast_rev s s = Some s"
  by (induction s) simp_all

lemma broadcast_shapes_scalar: "broadcast_shapes s [] = Some s"
  by (simp add: broadcast_shapes_def broadcast_rev_Nil_right)

lemma broadcast_shapes_same: "broadcast_shapes s s = Some s"
  by (simp add: broadcast_shapes_def broadcast_rev_same)

lemma concat_shifted_ranges:
  "concat (map (\<lambda>i. map (\<lambda>k. i * p + k) [0..<p]) [0..<n]) = [0..<n * p]"
proof (induction n)
  case 0
  then show ?case by simp
next
  case (Suc n)
  have block: "map (\<lambda>k. n * p + k) [0..<p] = [n * p..<n * p + p]"
    using map_add_upt [of "n * p" p] by (simp add: add.commute)
  have "[0..<Suc n * p] = [0..<n * p + p]"
    by (simp add: add.commute)
  also have "\<dots> = [0..<n * p] @ [n * p..<n * p + p]"
    by (rule upt_add_eq_append) simp
  finally show ?case
    using Suc block by simp
qed

lemma offsets_of_indices: "map (offset s) (indices s) = [0..<prod_list s]"
proof (induction s)
  case Nil
  then show ?case by simp
next
  case (Cons n ns)
  have "map (offset (n # ns)) (indices (n # ns)) =
      concat (map (\<lambda>i. map (\<lambda>idx. i * prod_list ns + offset ns idx) (indices ns)) [0..<n])"
    by (simp add: map_concat comp_def)
  also have "\<dots> = concat (map (\<lambda>i. map (\<lambda>k. i * prod_list ns + k) (map (offset ns) (indices ns))) [0..<n])"
    by (simp add: comp_def)
  also have "\<dots> = [0..<n * prod_list ns]"
    unfolding Cons by (rule concat_shifted_ranges)
  finally show ?case by simp
qed

lemma length_indices: "length (indices s) = prod_list s"
  using arg_cong [OF offsets_of_indices [of s], of length] by simp

lemma own_index: "idx \<in> set (indices s) \<Longrightarrow> map2 (\<lambda>n i. if n = 1 then 0 else i) s idx = idx"
proof (induction s arbitrary: idx)
  case Nil
  then show ?case by simp
next
  case (Cons n ns)
  then show ?case by auto
qed

lemma length_index: "idx \<in> set (indices s) \<Longrightarrow> length idx = length s"
  by (induction s arbitrary: idx) auto

lemma source_index_own:
  assumes "idx \<in> set (indices s)"
  shows "source_index s idx = idx"
proof -
  have "drop (length idx - length s) idx = idx"
    using length_index [OF assms] by simp
  then show ?thesis
    unfolding source_index_def using own_index [OF assms] by simp
qed

lemma expand_own_shape:
  assumes "well_formed t"
  shows "expand t (shape t) = data t"
proof -
  have "expand t (shape t) = map (\<lambda>idx. data t ! offset (shape t) idx) (indices (shape t))"
    unfolding expand_def by (rule map_cong) (simp_all add: source_index_own)
  also have "\<dots> = map (nth (data t)) (map (offset (shape t)) (indices (shape t)))"
    by (simp add: comp_def)
  also have "\<dots> = map (nth (data t)) [0..<length (data t)]"
    using assms by (simp add: offsets_of_indices well_formed_def)
  finally show ?thesis by (simp add: map_nth)
qed

lemma scalar_tensor_simps:
  "shape (scalar_tensor c) = []" "data (scalar_tensor c) = [c]"
  "requires_grad (scalar_tensor c) = False"
  by (simp_all add: scalar_tensor_def)

lemma expand_scalar: "expand (scalar_tensor c) s = replicate (prod_list s) c"
proof -
  have "expand (scalar_tensor c) s = map (\<lambda>idx. c) (indices s)"
    by (simp add: expand_def scalar_tensor_def source_index_def)
  then show ?thesis
    by (simp add: map_replicate_const length_indices)
qed

lemma map2_replicate: "map2 f xs (replicate (length xs) c) = map (\<lambda>x. f x c) xs"
  by (induction xs) simp_all

lemma elementwise_scalar:
  assumes "well_formed t"
  shows "elementwise f t (scalar_tensor c) =
     Inr \<lparr>shape = shape t, data = map (\<lambda>x. f x c) (data t), requires_grad = requires_grad t\<rparr>"
proof -
  have "prod_list (shape t) = length (data t)"
    using assms by (simp add: well_formed_def)
  then show ?thesis
    by (simp add: elementwise_def broadcast_shapes_scalar expand_own_shape [OF assms]
          expand_scalar map2_replicate scalar_tensor_simps)
qed

lemma elementwise_same_shape:
  assumes "well_formed a" and "well_formed b" and "shape b = shape a"
  shows "elementwise f a b =
     Inr \<lparr>shape = shape a, data = map2 f (data a) (data b),
          requires_grad = (requires_grad a \<or> requires_grad b)\<rparr>"
  using expand_own_shape [OF assms(1)] expand_own_shape [OF assms(2)] assms(3)
  by (simp add: elementwise_def broadcast_shapes_same)

lemma map2_map_map: "map2 h (map f xs) (map g ys) = map2 (\<lambda>x y. h (f x) (g y)) xs ys"
proof (induction xs arbitrary: ys)
  case Nil
  then show ?case by simp
next
  case (Cons x xs)
  then show ?case by (cases ys) simp_all
qed

text \<open>
  The operations keep a tensor well formed: as many elements as its shape says.
\<close>

lemma length_expand: "length (expand t s) = prod_list s"
  by (simp add: expand_def length_indices)

lemma elementwise_well_formed: "elementwise f a b = Inr c \<Longrightarrow> well_formed c"
  by (auto simp: elementwise_def well_formed_def length_expand split: option.splits)

lemma scalar_tensor_well_formed: "well_formed (scalar_tensor c)"
  by (simp add: well_formed_def scalar_tensor_def)

lemma t_mean_well_formed: "well_formed (t_mean t)"
  by (simp add: well_formed_def t_mean_def)

lemma t_square_well_formed: "well_formed t \<Longrightarrow> well_formed (t_square t)"
  by (simp add: well_formed_def t_square_def)

lemma count_true: "length (filter (nth m) [0..<length m]) = length (filter id m)"
proof -
  have "filter id m = map (nth m) (filter (nth m) [0..<length m])"
    using filter_map [of id "nth m" "[0..<length m]"] by (simp add: map_nth comp_def)
  then show ?thesis
    by (metis length_map)
qed

lemma length_rows:
  assumes "length xs = n * p" and "\<forall>i \<in> set rows. i < n"
  shows "length (concat (map (\<lambda>i. take p (drop (i * p) xs)) rows)) = length rows * p"
  using assms(2)
proof (induction rows)
  case Nil
  then show ?case by simp
next
  case (Cons i rows)
  then have "i < n" by simp
  then have "p \<le> (n - i) * p"
    by (cases "n - i") simp_all
  then have "min p (length xs - i * p) = p"
    using assms(1) by (simp add: diff_mult_distrib)
  then show ?case
    using Cons by simp
qed

lemma mask_index_well_formed:
  assumes "well_formed t" and "mask_index t m = Inr r"
  shows "well_formed r"
proof -
  from assms(2) obtain ns where s: "shape t = length m # ns"
    and r: "r = \<lparr>shape = length (filter id m) # ns,
        data = concat (map (\<lambda>i. take (prod_list ns) (drop (i * prod_list ns) (data t)))
                        (filter (nth m) [0..<length m])),
        requires_grad = requires_grad t\<rparr>"
    by (auto simp: mask_index_def split: list.splits if_splits)
  have "length (data t) = length m * prod_list ns"
    using assms(1) s by (simp add: well_formed_def)
  moreover have "\<forall>i \<in> set (filter (nth m) [0..<length m]). i < length m"
    by simp
  ultimately have "length (concat (map (\<lambda>i. take (prod_list ns) (drop (i * prod_list ns) (data t)))
      (filter (nth m) [0..<length m]))) = length (filter (nth m) [0..<length m]) * prod_list ns"
    by (rule length_rows)
  then have "length (data r) = length (filter (nth m) [0..<length m]) * prod_list ns"
    unfolding r by simp
  then show ?thesis
    by (simp add: well_formed_def r count_true)
qed

lemma slice_dim2_well_formed: "slice_dim2 t lo hi = Inr r \<Longrightarrow> well_formed r"
  by (auto simp: slice_dim2_def well_formed_def length_indices Let_def
        simp del: indices.simps split: list.splits)

lemma py_index_in_range: "0 \<le> i \<Longrightarrow> i < int (length xs) \<Longrightarrow> py_index xs i = Inr (xs ! nat i)"
  by (simp add: py_index_def)

section \<open>The contrastive loss\<close>

lemma eq_mask_swap_1: "eq_mask (swap_labels y) 1 = eq_mask y 0"
  by (simp add: eq_mask_def swap_labels_def)

lemma eq_mask_swap_0: "eq_mask (swap_labels y) 0 = eq_mask y 1"
  by (simp add: eq_mask_def swap_labels_def)

lemma filter_eq_mask_empty: "c \<notin> set y \<Longrightarrow> filter id (eq_mask y c) = []"
  by (induction y) (auto simp: eq_mask_def)

lemma mask_index_ok:
  "shape t = n # ns \<Longrightarrow> length m = n \<Longrightarrow> \<exists>r. mask_index t m = Inr r \<and> shape r = length (filter id m) # ns"
  by (simp add: mask_index_def)

lemma empty_partition_returns_zero:
  assumes "shape X_left = n # ls" and "shape X_right = n # rs" and "length y = n"
    and "1 \<notin> set y \<or> 0 \<notin> set y"
  shows "forward_forward model X_left X_right y w = (Inr (scalar_tensor (Finite 0)), w)"
proof -
  have len: "length (eq_mask y 1) = n" "length (eq_mask y 0) = n"
    using assms(3) by (simp_all add: eq_mask_def)
  obtain pl where pl: "mask_index X_left (eq_mask y 1) = Inr pl"
      "shape pl = length (filter id (eq_mask y 1)) # ls"
    using mask_index_ok [OF assms(1) len(1)] by blast
  obtain nl where nl: "mask_index X_left (eq_mask y 0) = Inr nl"
      "shape nl = length (filter id (eq_mask y 0)) # ls"
    using mask_index_ok [OF assms(1) len(2)] by blast
  obtain pr where pr: "mask_index X_right (eq_mask y 1) = Inr pr"
    using mask_index_ok [OF assms(2) len(1)] by blast
  obtain nr where nr: "mask_index X_right (eq_mask y 0) = Inr nr"
    using mask_index_ok [OF assms(2) len(2)] by blast
  have "nelement pl = 0 \<or> nelement nl = 0"
    using assms(4) pl(2) nl(2) by (auto simp: nelement_def filter_eq_mask_empty)
  then show ?thesis
    by (simp add: forward_forward_def pl nl pr nr)
qed

lemma broadcast_rev_commute: "broadcast_rev a b = broadcast_rev b a"
  by (induction a b rule: broadcast_rev.induct) (auto, (case_tac bs; simp))

text \<open>
  C1. For a batch (left halves, right halves and labels of one batch size) whose labels
  contain no 1 or no 0, \<open>forward_forward\<close> returns the 0-dimensional tensor 0.0 and raises
  nothing, whatever the network is; the network is not called, so the world is left as
  it was. A batch whose labels are all 1 is such a batch.
\<close>

theorem forward_forward_empty_partition:
  assumes "shape X_left = n # ls" and "shape X_right = n # rs" and "length y = n"
    and "1 \<notin> set y \<or> 0 \<notin> set y"
  shows "forward_forward model X_left X_right y w = (Inr (scalar_tensor (Finite 0)), w)"
  using assms by (rule empty_partition_returns_zero)

theorem forward_forward_empty_partition_witness:
  "0 \<notin> set (replicate 64 (1::int)) \<and>
   forward_forward second_arg_net
     \<lparr>shape = [64, 1, 14, 28], data = replicate 25088 (Finite 0), requires_grad = False\<rparr>
     \<lparr>shape = [64, 1, 14, 28], data = replicate 25088 (Finite 1), requires_grad = False\<rparr>
     (replicate 64 1) () = (Inr (scalar_tensor (Finite 0)), ())"
proof -
  have labels: "1 \<notin> set (replicate 64 (1::int)) \<or> 0 \<notin> set (replicate 64 (1::int))"
    by simp
  have "forward_forward second_arg_net
     \<lparr>shape = [64, 1, 14, 28], data = replicate 25088 (Finite 0), requires_grad = False\<rparr>
     \<lparr>shape = [64, 1, 14, 28], data = replicate 25088 (Finite 1), requires_grad = False\<rparr>
     (replicate 64 1) () = (Inr (scalar_tensor (Finite 0)), ())"
    by (rule forward_forward_empty_partition [where n = 64 and ls = "[1, 14, 28]"
          and rs = "[1, 14, 28]", OF _ _ _ labels]) simp_all
  then show ?thesis by simp
qed

lemma fsub_square_commute: "fmul (fsub a b) (fsub a b) = fmul (fsub b a) (fsub b a)"
  by (cases a; cases b) (simp_all add: algebra_simps)

lemma map2_square_commute:
  "map (\<lambda>x. fmul x x) (map2 fsub xs ys) = map (\<lambda>x. fmul x x) (map2 fsub ys xs)"
proof (induction xs arbitrary: ys)
  case Nil
  then show ?case by simp
next
  case (Cons x xs)
  then show ?case by (cases ys) (simp_all add: fsub_square_commute)
qed

lemma map2_square_commute':
  "map ((\<lambda>x. fmul x x) \<circ> (\<lambda>(x, y). fsub x y)) (zip xs ys) =
   map ((\<lambda>x. fmul x x) \<circ> (\<lambda>(x, y). fsub x y)) (zip ys xs)"
  using map2_square_commute [of xs ys] by simp

lemma broadcast_shapes_commute: "broadcast_shapes a b = broadcast_shapes b a"
  by (simp add: broadcast_shapes_def broadcast_rev_commute)

lemma t_sub_square_commute:
  "t_sub a b = Inr d \<Longrightarrow> \<exists>d'. t_sub b a = Inr d' \<and> t_square d' = t_square d"
  by (auto simp: t_sub_def elementwise_def t_square_def broadcast_shapes_commute [of "shape b"]
        map2_square_commute' split: option.splits)

lemma second_arg_net_pure: "fst (second_arg_net x a w) = fst (second_arg_net x a w')"
  by (cases a) (simp_all add: second_arg_net_def)

lemma UNet_module_rejects_two_arguments:
  "\<exists>e. call2 (UNet_module u) x a w = (Inl (TypeError e), w)"
  by (simp add: UNet_module_def)

text \<open>
  C7. When the network's result does not depend on the state it is called in, a run of
  \<open>forward_forward\<close> that returns a loss returns the same loss after the labels 1 and 0
  are exchanged: the two partitions change places, the difference of the two outputs
  changes sign, and its square does not.
\<close>

theorem forward_forward_swap:
  assumes pure: "\<And>x a w w'. fst (model x a w) = fst (model x a w')"
    and ret: "fst (forward_forward model X_left X_right y w) = Inr v"
  shows "fst (forward_forward model X_left X_right (swap_labels y) w) = Inr v"
proof -
  from ret obtain pl nl pr nr where m:
    "mask_index X_left (eq_mask y 1) = Inr pl" "mask_index X_left (eq_mask y 0) = Inr nl"
    "mask_index X_right (eq_mask y 1) = Inr pr" "mask_index X_right (eq_mask y 0) = Inr nr"
    by (auto simp: forward_forward_def split: sum.splits)
  show ?thesis
  proof (cases "nelement pl = 0 \<or> nelement nl = 0")
    case True
    then show ?thesis
      using ret by (auto simp: forward_forward_def m eq_mask_swap_0 eq_mask_swap_1)
  next
    case False
    with ret obtain op w1 on w2 d where c:
      "model pl (TensorArg pr) w = (Inr op, w1)"
      "model nl (TensorArg nr) w1 = (Inr on, w2)"
      "t_sub op on = Inr d" "v = t_mean (t_square d)"
      by (auto simp: forward_forward_def m split: sum.splits prod.splits)
    obtain d' where d': "t_sub on op = Inr d'" "t_square d' = t_square d"
      using t_sub_square_commute [OF c(3)] by blast
    obtain w1' where n1: "model nl (TensorArg nr) w = (Inr on, w1')"
      using pure [of nl "TensorArg nr" w w1] c(2) by (cases "model nl (TensorArg nr) w") simp
    obtain w2' where p2: "model pl (TensorArg pr) w1' = (Inr op, w2')"
      using pure [of pl "TensorArg pr" w1' w] c(1) by (cases "model pl (TensorArg pr) w1'") simp
    show ?thesis
      using False by (simp add: forward_forward_def m eq_mask_swap_0 eq_mask_swap_1 n1 p2 d' c(4) disj_commute)
  qed
qed

theorem forward_forward_swap_witness:
  "fst (forward_forward second_arg_net (tensor_of [2, 1] [1, 2]) (tensor_of [2, 1] [3, 5])
          [1, 0] ()) = Inr (tensor_of [] [4]) \<and>
   swap_labels [1, 0] = [0, 1] \<and>
   fst (forward_forward second_arg_net (tensor_of [2, 1] [1, 2]) (tensor_of [2, 1] [3, 5])
          (swap_labels [1, 0]) ()) = Inr (tensor_of [] [4])"
proof -
  have ret: "fst (forward_forward second_arg_net (tensor_of [2, 1] [1, 2])
      (tensor_of [2, 1] [3, 5]) [1, 0] ()) = Inr (tensor_of [] [4])"
    by code_simp
  have "fst (forward_forward second_arg_net (tensor_of [2, 1] [1, 2])
      (tensor_of [2, 1] [3, 5]) (swap_labels [1, 0]) ()) = Inr (tensor_of [] [4])"
    by (rule forward_forward_swap [OF second_arg_net_pure ret])
  with ret show ?thesis by (simp add: swap_labels_def)
qed

text \<open>
  C3, as the code has it. \<open>forward_forward\<close> hands the two partitions of \<open>X_right\<close> to
  the network as its second argument, so the loss depends on \<open>X_right\<close> through the
  network: with a network that returns its second argument, two runs that differ only
  in \<open>X_right\<close> return the losses 0 and 1. And \<open>X_right\<close> is indexed by the labels before
  anything else is decided: with an instance of \<open>UNet\<close> and labels that are all 1, a
  right half of the labels' batch size gives the loss 0, and one of another batch size
  raises IndexError.
\<close>

theorem forward_forward_right_half_counterexample:
  "forward_forward second_arg_net (tensor_of [2, 1] [1, 2]) (tensor_of [2, 1] [0, 0])
     [1, 0] () = (Inr (tensor_of [] [0]), ()) \<and>
   forward_forward second_arg_net (tensor_of [2, 1] [1, 2]) (tensor_of [2, 1] [1, 0])
     [1, 0] () = (Inr (tensor_of [] [1]), ()) \<and>
   forward_forward (call2 (UNet_module hand_built_unet)) (tensor_of [2, 1] [1, 2])
     (tensor_of [2, 1] [0, 0]) [1, 1] () = (Inr (tensor_of [] [0]), ()) \<and>
   forward_forward (call2 (UNet_module hand_built_unet)) (tensor_of [2, 1] [1, 2])
     (tensor_of [3, 1] [0, 0, 0]) [1, 1] () =
     (Inl (IndexError ''the shape of the mask does not match the indexed tensor''), ())"
  by code_simp

text \<open>
  C3, as it holds. \<open>forward_forward\<close> does nothing with \<open>X_right\<close> but split it by label and
  pass the parts to the network. For a network whose call does not depend on its second
  argument, and right halves of the labels' batch size, the outcome (the loss or the
  exception, and the state left behind) is the same for every \<open>X_right\<close>.
\<close>

theorem forward_forward_right_half:
  assumes ignores: "\<And>x a a' w. model x a w = model x a' w"
    and "shape X_right = n # rs" and "shape X_right' = n # rs'" and "length y = n"
  shows "forward_forward model X_left X_right y w = forward_forward model X_left X_right' y w"
proof -
  have len: "length (eq_mask y 1) = n" "length (eq_mask y 0) = n"
    using assms(4) by (simp_all add: eq_mask_def)
  obtain pr nr pr' nr' where r:
    "mask_index X_right (eq_mask y 1) = Inr pr" "mask_index X_right (eq_mask y 0) = Inr nr"
    "mask_index X_right' (eq_mask y 1) = Inr pr'" "mask_index X_right' (eq_mask y 0) = Inr nr'"
    using mask_index_ok [OF assms(2) len(1)] mask_index_ok [OF assms(2) len(2)]
      mask_index_ok [OF assms(3) len(1)] mask_index_ok [OF assms(3) len(2)] by blast
  show ?thesis
  proof (cases "mask_index X_left (eq_mask y 1)")
    case (Inl e)
    then show ?thesis by (simp add: forward_forward_def)
  next
    case pl: (Inr pl)
    show ?thesis
    proof (cases "mask_index X_left (eq_mask y 0)")
      case (Inl e)
      then show ?thesis by (simp add: forward_forward_def pl)
    next
      case nl: (Inr nl)
      have first: "model pl (TensorArg pr) w = model pl (TensorArg pr') w"
        by (rule ignores)
      show ?thesis
      proof (cases "model pl (TensorArg pr') w")
        case (Pair res w1)
        have second: "model nl (TensorArg nr) w1 = model nl (TensorArg nr') w1"
          by (rule ignores)
        show ?thesis
          by (simp add: forward_forward_def pl nl r first Pair second split: sum.splits)
      qed
    qed
  qed
qed

theorem forward_forward_right_half_witness:
  "forward_forward first_arg_net (tensor_of [2, 1] [1, 2]) (tensor_of [2, 1] [0, 0]) [1, 0] ()
     = forward_forward first_arg_net (tensor_of [2, 1] [1, 2]) (tensor_of [2, 1] [1, 0]) [1, 0] () \<and>
   forward_forward first_arg_net (tensor_of [2, 1] [1, 2]) (tensor_of [2, 1] [1, 0]) [1, 0] ()
     = (Inr (tensor_of [] [1]), ())"
proof -
  have ignores: "\<And>x a a' w. (first_arg_net :: unit net) x a w = first_arg_net x a' w"
    by (simp add: first_arg_net_def)
  have "forward_forward first_arg_net (tensor_of [2, 1] [1, 2]) (tensor_of [2, 1] [0, 0]) [1, 0] ()
     = forward_forward first_arg_net (tensor_of [2, 1] [1, 2]) (tensor_of [2, 1] [1, 0]) [1, 0] ()"
    by (rule forward_forward_right_half [OF ignores, where n = 2 and rs = "[1]" and rs' = "[1]"])
      (simp_all add: tensor_of_def)
  moreover have "forward_forward first_arg_net (tensor_of [2, 1] [1, 2])
      (tensor_of [2, 1] [1, 0]) [1, 0] () = (Inr (tensor_of [] [1]), ())"
    by code_simp
  ultimately show ?thesis by simp
qed

text \<open>
  With an instance of \<open>UNet\<close> as the network, the scoring step raises (the call passes
  two tensors to a \<open>forward\<close> of one), so the only loss \<open>forward_forward\<close> ever returns is
  the constant of the empty partition.
\<close>

lemma forward_forward_UNet:
  "(\<exists>e. forward_forward (call2 (UNet_module u)) X_left X_right y w = (Inl e, w)) \<or>
   forward_forward (call2 (UNet_module u)) X_left X_right y w =
     (Inr (scalar_tensor (Finite 0)), w)"
  by (auto simp: forward_forward_def UNet_module_def split: sum.splits)

section \<open>The sampling routine\<close>

lemma range_down_neg: "i < 0 \<Longrightarrow> range_down i = []"
  by (simp add: range_down.simps)

lemma range_down_nat: "range_down (int n) = int n # range_down (int n - 1)"
  by (simp add: range_down.simps [of "int n"])

lemma range_down_rev_range: "range_down (n - 1) = rev (py_range n)"
proof (induction "nat n" arbitrary: n)
  case 0
  then show ?case by (simp add: range_down_neg py_range_def)
next
  case (Suc k)
  then have n: "n = int k + 1" by linarith
  have "range_down (n - 1) = int k # range_down (int k - 1)"
    using range_down_nat [of k] n by simp
  also have "range_down (int k - 1) = rev (py_range (int k))"
    using Suc(1) [of "int k"] by simp
  also have "int k # rev (py_range (int k)) = rev (py_range n)"
    unfolding n py_range_def by (simp add: upto_rec2)
  finally show ?case .
qed











lemma sample_step_rng:
  assumes "\<And>x a w r. model x a (w\<lparr>rng := r\<rparr>) = (fst (model x a w), (snd (model x a w))\<lparr>rng := r\<rparr>)"
  shows "sample_step model s x i (w\<lparr>rng := r\<rparr>) =
     (fst (sample_step model s x i w), (snd (sample_step model s x i w))\<lparr>rng := r\<rparr>)"
  by (simp add: sample_step_def assms split: prod.splits sum.splits)

lemma sample_loop_rng:
  assumes "\<And>x a w r. model x a (w\<lparr>rng := r\<rparr>) = (fst (model x a w), (snd (model x a w))\<lparr>rng := r\<rparr>)"
  shows "sample_loop model s ts x (w\<lparr>rng := r\<rparr>) =
     (fst (sample_loop model s ts x w), (snd (sample_loop model s ts x w))\<lparr>rng := r\<rparr>)"
proof (induction ts arbitrary: x w)
  case Nil
  then show ?case by simp
next
  case (Cons t ts)
  show ?case
    by (simp add: sample_step_rng [OF assms] Cons split: prod.splits sum.splits)
qed

lemma sample_rng:
  assumes "\<And>x a w r. call2 model x a (w\<lparr>rng := r\<rparr>) =
      (fst (call2 model x a w), (snd (call2 model x a w))\<lparr>rng := r\<rparr>)"
  shows "sample model noise T (w\<lparr>rng := r\<rparr>) =
     (fst (sample model noise T w), (snd (sample model noise T w))\<lparr>rng := r\<rparr>)"
  by (simp add: sample_def sample_loop_rng [OF assms] split: sum.splits)

lemma second_arg_net_rng:
  "second_arg_net x a (w\<lparr>rng := r\<rparr>) =
     (fst (second_arg_net x a w), (snd (second_arg_net x a w))\<lparr>rng := r\<rparr>)"
  by (cases a) (simp_all add: second_arg_net_def)

text \<open>
  C6. \<open>sample\<close> draws nothing from the random generator. For a model whose call neither
  reads nor advances the generator, two runs of \<open>sample\<close> on the same model, seed tensor,
  step count and world, started in any two generator states, return the same result,
  and \<open>sample\<close> leaves the generator as it found it.
\<close>

theorem sample_deterministic:
  assumes "\<And>x a w r. call2 model x a (w\<lparr>rng := r\<rparr>) =
      (fst (call2 model x a w), (snd (call2 model x a w))\<lparr>rng := r\<rparr>)"
  shows "fst (sample model noise T (w\<lparr>rng := r1\<rparr>)) = fst (sample model noise T (w\<lparr>rng := r2\<rparr>)) \<and>
     rng (snd (sample model noise T w)) = rng w"
proof -
  have same: "w\<lparr>rng := rng w\<rparr> = w" by simp
  have "rng (snd (sample model noise T (w\<lparr>rng := rng w\<rparr>))) =
      rng (snd (fst (sample model noise T w), (snd (sample model noise T w))\<lparr>rng := rng w\<rparr>))"
    by (simp only: sample_rng [OF assms])
  also have "\<dots> = rng w" by simp
  finally have kept: "rng (snd (sample model noise T w)) = rng w"
    by (simp only: same)
  have "fst (sample model noise T (w\<lparr>rng := r1\<rparr>)) = fst (sample model noise T w)"
    by (simp only: sample_rng [OF assms] fst_conv)
  moreover have "fst (sample model noise T (w\<lparr>rng := r2\<rparr>)) = fst (sample model noise T w)"
    by (simp only: sample_rng [OF assms] fst_conv)
  ultimately show ?thesis using kept by simp
qed

theorem sample_deterministic_witness:
  "fst (sample echo_module (tensor_of [2] [1, 1]) 2 (world0\<lparr>rng := 5\<rparr>)) =
     fst (sample echo_module (tensor_of [2] [1, 1]) 2 (world0\<lparr>rng := 7\<rparr>)) \<and>
   rng (snd (sample echo_module (tensor_of [2] [1, 1]) 2 world0)) = rng world0"
proof -
  have quiet: "\<And>x a w r. call2 echo_module x a (w\<lparr>rng := r\<rparr>) =
      (fst (call2 echo_module x a w),
       (snd (call2 echo_module x a w :: (error + tensor) \<times> (unit, unit, nat) world))
         \<lparr>rng := r\<rparr>)"
    by (simp add: echo_module_def second_arg_net_rng)
  show ?thesis
    by (rule sample_deterministic [OF quiet])
qed

text \<open>
  An instance of \<open>UNet\<close> has no schedule: \<open>sample\<close> raises at its first statement, and the
  training iteration raises after its draw.
\<close>

lemma sample_UNet:
  "sample (UNet_module u) noise T w = (Inl (AttributeError ''alphas_cumprod''), w)"
  by (simp add: sample_def UNet_module_def getattr_def)

section \<open>The training loop and the script\<close>

lemma set_range_down: "set (range_down n) = {0..n}"
  using range_down_rev_range [of "n + 1"] by (simp add: py_range_def)

lemma randn_like_result:
  assumes "randn_like env images w = (z, w1)"
  shows "shape z = shape images" and "requires_grad z = False" and "fed w1 = fed w"
  using assms by (auto simp: randn_like_def randn_def split: prod.splits)

lemma noisy_batch_formula:
  assumes wf: "well_formed images"
    and draw: "randn_like env images w = (z, w1)" and wfz: "well_formed z"
    and a: "alphas_cumprod model = Some a" and s: "sqrt_alphas_cumprod model = Some s"
    and t: "0 \<le> t" "t < int (length a)" "t < int (length s)"
  shows "\<exists>noise. noisy_batch env model images t w =
     (Inr (noise, noisy_image images z (a ! nat t) (s ! nat t)), w1)"
proof -
  let ?st = "s ! nat t" and ?at = "a ! nat t"
  let ?noise = "\<lparr>shape = shape z, data = map (\<lambda>x. fmul x ?st) (data z),
      requires_grad = requires_grad z\<rparr>"
  let ?signal = "\<lparr>shape = shape images, data = map (\<lambda>x. fmul x ?at) (data images),
      requires_grad = requires_grad images\<rparr>"
  have sz: "shape z = shape images"
    using randn_like_result(1) [OF draw] .
  have n: "t_mul z (scalar_tensor ?st) = Inr ?noise"
    unfolding t_mul_def by (rule elementwise_scalar [OF wfz])
  have sg: "t_mul images (scalar_tensor ?at) = Inr ?signal"
    unfolding t_mul_def by (rule elementwise_scalar [OF wf])
  have "well_formed ?signal" "well_formed ?noise" "shape ?noise = shape ?signal"
    using wf wfz sz by (simp_all add: well_formed_def)
  then have "t_add ?signal ?noise =
      Inr \<lparr>shape = shape ?signal, data = map2 fadd (data ?signal) (data ?noise),
           requires_grad = (requires_grad ?signal \<or> requires_grad ?noise)\<rparr>"
    unfolding t_add_def by (rule elementwise_same_shape)
  also have "\<dots> = Inr (noisy_image images z ?at ?st)"
    by (simp add: noisy_image_def map2_map_map)
  finally have sum: "t_add ?signal ?noise = Inr (noisy_image images z ?at ?st)" .
  have "noisy_batch env model images t w = (Inr (?noise, noisy_image images z ?at ?st), w1)"
    by (simp add: noisy_batch_def draw a s getattr_def py_index_in_range t n sg sum)
  then show ?thesis by blast
qed

lemma logged_attributes:
  "alphas_cumprod (logged model) = alphas_cumprod model"
  "sqrt_alphas_cumprod (logged model) = sqrt_alphas_cumprod model"
  by (simp_all add: logged_def)

lemma fed_logged_call:
  assumes "\<And>x b v. fed (snd (call2 model x b v)) = fed v"
  shows "fed (snd (call2 (logged model) x b w)) = fed w @ [(x, b)]"
  by (simp add: logged_def assms)

lemma fed_optimize: "fed (snd (optimize env loss w)) = fed w"
  by (simp add: optimize_def backward_def zero_grad_def optimizer_step_def split: prod.splits)

lemma fed_optimize_result: "optimize env loss w = (r, w') \<Longrightarrow> fed w' = fed w"
  using fed_optimize [of env loss w] by simp

lemma fed_forward_forward:
  assumes "\<And>x b v. fed (snd (call2 model x b v)) = fed v"
  shows "\<exists>xs. fed (snd (forward_forward (call2 (logged model)) X_left X_right y w)) = fed w @ xs"
proof -
  have call: "\<And>x b v r v'. call2 (logged model) x b v = (r, v') \<Longrightarrow> fed v' = fed v @ [(x, b)]"
    using fed_logged_call [OF assms] by (metis snd_conv)
  show ?thesis
    by (auto simp: forward_forward_def dest!: call split: sum.splits prod.splits)
qed

lemma fed_contrastive_update:
  assumes "\<And>x b v. fed (snd (call2 model x b v)) = fed v"
  shows "\<exists>xs. fed (snd (contrastive_update env (logged model) X_left X_right y w)) = fed w @ xs"
proof (cases "forward_forward (call2 (logged model)) X_left X_right y w")
  case (Pair r w1)
  obtain xs where "fed w1 = fed w @ xs"
    using fed_forward_forward [OF assms, of X_left X_right y w] Pair by auto
  then show ?thesis
    using fed_optimize [of env _ w1]
    by (cases r) (auto simp: contrastive_update_def Pair)
qed

lemma fed_denoising_update:
  assumes "\<And>x b v. fed (snd (call2 model x b v)) = fed v"
  shows "\<exists>xs. fed (snd (denoising_update env (logged model) noisy noise t w)) = fed w @ xs"
proof (cases "call2 (logged model) noisy (IntArg t) w")
  case (Pair r w1)
  have "fed w1 = fed w @ [(noisy, IntArg t)]"
    using fed_logged_call [OF assms, of noisy "IntArg t" w] Pair by simp
  then show ?thesis
    by (cases r)
      (auto simp: denoising_update_def Pair dest!: fed_optimize_result
         split: sum.splits prod.splits)
qed

text \<open>
  C5. In an iteration of the training loop at a noise step \<open>t\<close> of
  \<open>range(diffusion_steps - 1, -1, -1)\<close>, with a model that carries a schedule for every
  step, the first tensor handed to the network is
  \<open>images * alphas_cumprod[t] + (z * sqrt_alphas_cumprod[t])\<close>, element by element, where
  \<open>z\<close> is the tensor that \<open>torch.randn_like(images)\<close> drew: it has the shape of the
  images. The network is observed through \<open>logged\<close> and does not touch the observer's
  record itself.
\<close>

theorem noisy_image_fed:
  assumes "well_formed images"
    and "randn_like env images w = (z, w1)" and "well_formed z"
    and "alphas_cumprod model = Some a" and "sqrt_alphas_cumprod model = Some s"
    and "diffusion_steps \<le> int (length a)" and "diffusion_steps \<le> int (length s)"
    and "t \<in> set (range_down (diffusion_steps - 1))"
    and frame: "\<And>x b v. fed (snd (call2 model x b v)) = fed v"
  shows "shape z = shape images \<and>
     (\<exists>noise. noisy_batch env model images t w =
        (Inr (noise, noisy_image images z (a ! nat t) (s ! nat t)), w1)) \<and>
     (\<exists>rest. fed (snd (train_iteration env (logged model) images labels X_left X_right t w)) =
        fed w @ (noisy_image images z (a ! nat t) (s ! nat t), IntArg t) # rest)"
proof -
  let ?noisy = "noisy_image images z (a ! nat t) (s ! nat t)"
  have t: "0 \<le> t" "t < int (length a)" "t < int (length s)"
    using assms(6-8) by (simp_all add: set_range_down)
  obtain noise where nb: "noisy_batch env model images t w = (Inr (noise, ?noisy), w1)"
    using noisy_batch_formula [OF assms(1-5) t] by blast
  have "noisy_batch env (logged model) images t w = noisy_batch env model images t w"
    unfolding noisy_batch_def logged_attributes by (rule refl)
  then have nbl: "noisy_batch env (logged model) images t w = (Inr (noise, ?noisy), w1)"
    using nb by simp
  have w1: "fed w1 = fed w"
    using randn_like_result(3) [OF assms(2)] .
  obtain r w2 where call: "call2 (logged model) ?noisy (IntArg t) w1 = (r, w2)"
    by (cases "call2 (logged model) ?noisy (IntArg t) w1")
  have w2: "fed w2 = fed w @ [(?noisy, IntArg t)]"
    using fed_logged_call [OF frame, of ?noisy "IntArg t" w1] call w1 by simp
  have "\<exists>rest. fed (snd (train_iteration env (logged model) images labels X_left X_right t w)) =
        fed w @ (?noisy, IntArg t) # rest"
  proof (cases r)
    case (Inl e)
    then show ?thesis
      by (simp add: train_iteration_def nbl call w2)
  next
    case (Inr model_output)
    obtain u w3 where cu:
      "contrastive_update env (logged model) X_left X_right labels w2 = (u, w3)"
      by (cases "contrastive_update env (logged model) X_left X_right labels w2")
    obtain xs where w3: "fed w3 = fed w2 @ xs"
      using fed_contrastive_update [OF frame, of env X_left X_right labels w2] cu by auto
    show ?thesis
    proof (cases u)
      case (Inl e)
      then show ?thesis
        by (simp add: train_iteration_def nbl call Inr cu w3 w2)
    next
      case ok: (Inr unit)
      obtain ys where
        "fed (snd (denoising_update env (logged model) ?noisy noise t w3)) = fed w3 @ ys"
        using fed_denoising_update [OF frame] by blast
      then show ?thesis
        by (simp add: train_iteration_def nbl call Inr cu ok w3 w2)
    qed
  qed
  then show ?thesis
    using randn_like_result(1) [OF assms(2)] nb by blast
qed

lemma second_arg_net_fed: "fed (snd (second_arg_net x b v)) = fed v"
  by (cases b) (simp_all add: second_arg_net_def)

theorem noisy_image_fed_witness:
  "999 \<in> set (range_down (diffusion_steps - 1)) \<and>
   randn_like torch0 (tensor_of [2, 1, 2, 1] [1, 2, 3, 4]) world0 =
     (tensor_of [2, 1, 2, 1] [1, 1, 1, 1], world0\<lparr>rng := 4\<rparr>) \<and>
   (\<exists>rest. fed (snd (train_iteration torch0 (logged schedule_module)
        (tensor_of [2, 1, 2, 1] [1, 2, 3, 4]) [1, 0] (tensor_of [2, 1, 1, 1] [1, 3])
        (tensor_of [2, 1, 1, 1] [2, 4]) 999 world0)) =
      (tensor_of [2, 1, 2, 1] [7 / 2, 4, 9 / 2, 5], IntArg 999) # rest)"
proof -
  let ?images = "tensor_of [2, 1, 2, 1] [1, 2, 3, 4]"
  let ?z = "tensor_of [2, 1, 2, 1] [1, 1, 1, 1]"
  have step: "999 \<in> set (range_down (diffusion_steps - 1))"
    by (simp add: set_range_down diffusion_steps_def)
  have draw: "randn_like torch0 ?images world0 = (?z, world0\<lparr>rng := 4\<rparr>)"
    by (simp add: randn_like_def randn_def torch0_def tensor_of_def world0_def
          numeral_eq_Suc)
  have wf: "well_formed ?images" "well_formed ?z"
    by (simp_all add: well_formed_def tensor_of_def)
  have a: "alphas_cumprod (schedule_module :: (unit, unit, nat) world module) =
      Some (replicate 1000 (Finite (1 / 2)))"
    and s: "sqrt_alphas_cumprod (schedule_module :: (unit, unit, nat) world module) =
      Some (replicate 1000 (Finite 3))"
    by (simp_all add: schedule_module_def)
  have len: "diffusion_steps \<le> int (length (replicate 1000 (Finite (1 / 2))))"
    "diffusion_steps \<le> int (length (replicate 1000 (Finite 3)))"
    by (simp_all add: diffusion_steps_def)
  have frame: "\<And>x b v. fed (snd (call2 schedule_module x b
      (v :: (unit, unit, nat) world))) = fed v"
    by (simp add: schedule_module_def second_arg_net_fed)
  have formula: "noisy_image ?images ?z (replicate 1000 (Finite (1 / 2)) ! nat 999)
      (replicate 1000 (Finite 3) ! nat 999) = tensor_of [2, 1, 2, 1] [7 / 2, 4, 9 / 2, 5]"
    by (simp add: noisy_image_def tensor_of_def)
  from noisy_image_fed [OF wf(1) draw wf(2) a s len step frame,
      of "[1, 0]" "tensor_of [2, 1, 1, 1] [1, 3]" "tensor_of [2, 1, 1, 1] [2, 4]"]
  have "\<exists>rest. fed (snd (train_iteration torch0 (logged schedule_module) ?images [1, 0]
        (tensor_of [2, 1, 1, 1] [1, 3]) (tensor_of [2, 1, 1, 1] [2, 4]) 999 world0)) =
      fed world0 @ (tensor_of [2, 1, 2, 1] [7 / 2, 4, 9 / 2, 5], IntArg 999) # rest"
    unfolding formula by blast
  then show ?thesis
    using step draw by (simp add: world0_def)
qed

text \<open>
  C10. The script builds the network with \<open>UNet()\<close>, and \<open>__init__\<close> requires
  \<open>in_channels\<close> and \<open>out_channels\<close>: the call raises TypeError for the two missing
  arguments. Whatever the data loader yields, the script ends there, and the world is
  as it was: nothing was drawn from the random generator, no parameter was updated,
  the network was never called, nothing was printed. No training iteration and no call
  of \<open>sample\<close> is reached.
\<close>

theorem script_stops_at_construction:
  "script env train_loader dataset_size w =
     (Inl (TypeError ''__init__() missing 2 required positional arguments''), w)"
  by (simp add: script_def)

theorem script_stops_at_construction_witness:
  "script torch0 [(tensor_of [2, 1, 28, 28] (replicate 1568 0), [1, 0])] 2 world0 =
     (Inl (TypeError ''__init__() missing 2 required positional arguments''), world0) \<and>
   rng world0 = 0 \<and> fed world0 = [] \<and> printed world0 = []"
  using script_stops_at_construction
    [of torch0 "[(tensor_of [2, 1, 28, 28] (replicate 1568 0), [1, 0])]" 2 world0]
  by (simp add: world0_def)

lemma optimize_constant:
  "requires_grad loss = False \<Longrightarrow>
   optimize env loss w =
     (Inl (RuntimeError
        ''element 0 of tensors does not require grad and does not have a grad_fn''),
      zero_grad w)"
  by (simp add: optimize_def backward_def)

text \<open>
  C9. For a batch (left halves, right halves and labels of one batch size) whose labels
  contain no 1 or no 0, the loss that \<open>forward_forward\<close> returns is the constant
  \<open>torch.tensor(0.0)\<close>: it does not require grad, and the network was not called. The
  update that follows (lines 127 to 129) clears the gradients and calls
  \<open>loss.backward()\<close>, which raises RuntimeError on such a tensor; \<open>optimizer.step()\<close> is not
  reached. The parameters and the optimizer state are as before, and the iteration
  ends with the exception.
\<close>

theorem zero_loss_update_raises:
  assumes "shape X_left = n # ls" and "shape X_right = n # rs" and "length labels = n"
    and "1 \<notin> set labels \<or> 0 \<notin> set labels"
  shows "forward_forward (call2 model) X_left X_right labels w =
       (Inr (scalar_tensor (Finite 0)), w) \<and>
     requires_grad (scalar_tensor (Finite 0)) = False \<and>
     contrastive_update env model X_left X_right labels w =
       (Inl (RuntimeError
          ''element 0 of tensors does not require grad and does not have a grad_fn''),
        zero_grad w) \<and>
     params (zero_grad w) = params w \<and> opt_state (zero_grad w) = opt_state w"
proof -
  have zero: "forward_forward (call2 model) X_left X_right labels w =
      (Inr (scalar_tensor (Finite 0)), w)"
    using assms by (rule empty_partition_returns_zero)
  have const: "requires_grad (scalar_tensor (Finite 0)) = False"
    by (simp add: scalar_tensor_def)
  show ?thesis
    by (simp add: zero const contrastive_update_def optimize_constant zero_grad_def)
qed

theorem zero_loss_update_raises_witness:
  "0 \<notin> set [1, 1 :: int] \<and>
   forward_forward (call2 echo_module) (tensor_of [2, 1, 1, 1] [1, 3])
       (tensor_of [2, 1, 1, 1] [2, 4]) [1, 1] world0 =
     (Inr (scalar_tensor (Finite 0)), world0) \<and>
   contrastive_update torch0 echo_module (tensor_of [2, 1, 1, 1] [1, 3])
       (tensor_of [2, 1, 1, 1] [2, 4]) [1, 1] world0 =
     (Inl (RuntimeError
        ''element 0 of tensors does not require grad and does not have a grad_fn''),
      zero_grad world0) \<and>
   params (zero_grad world0) = params world0"
proof -
  have labels: "1 \<notin> set [1, 1 :: int] \<or> 0 \<notin> set [1, 1 :: int]"
    by simp
  have left: "shape (tensor_of [2, 1, 1, 1] [1, 3]) = 2 # [1, 1, 1]"
    and right: "shape (tensor_of [2, 1, 1, 1] [2, 4]) = 2 # [1, 1, 1]"
    by (simp_all add: tensor_of_def)
  have n: "length [1, 1 :: int] = 2"
    by simp
  from zero_loss_update_raises [OF left right n labels, of echo_module world0 torch0]
  show ?thesis by simp
qed

lemma train_iteration_zero_loss:
  "train_iteration torch0 echo_module (tensor_of [2, 1, 2, 1] [1, 2, 3, 4]) [1, 1]
     (tensor_of [2, 1, 1, 1] [1, 3]) (tensor_of [2, 1, 1, 1] [2, 4]) 0 world0 =
   (Inl (RuntimeError
      ''element 0 of tensors does not require grad and does not have a grad_fn''),
    world0\<lparr>rng := 4\<rparr>)"
  by code_simp

lemma train_iteration_UNet:
  "fst (train_iteration env (UNet_module u) images labels X_left X_right t w) =
     Inl (AttributeError ''sqrt_alphas_cumprod'')"
  by (simp add: train_iteration_def noisy_batch_def UNet_module_def getattr_def
        split: prod.splits)

end
